theory Spec2Isabelle
  imports Complex_Main
begin

section \<open>A box model of a subglacial plume\<close>

text \<open>
  The notebook computes with Python and NumPy floating-point numbers. They are read here
  in two ways.

  The first reading, up to the section on Python and NumPy scalars, takes every number
  as a real number and every operation as the exact one: \<^verbatim>\<open>np.sqrt\<close> is \<^const>\<open>sqrt\<close>,
  \<^verbatim>\<open>/\<close> is real division. It is the program's, up to rounding, wherever all values are
  finite, the radicand is non-negative and no divisor is zero; it carries the
  properties of the loops and the algebra of the melt closure. The not-a-number value
  that the program writes itself, \<^verbatim>\<open>np.nan\<close> as the fill value of an array, is
  \<^const>\<open>None\<close> in an array of \<^typ>\<open>real option\<close>.

  The second reading adds what the first leaves out: not-a-number and infinite values,
  and the exceptions that Python raises. It carries the properties that are about
  invalid inputs. Where the inputs are finite, the radicand is non-negative, the
  boundary salinity is not zero and \<^verbatim>\<open>b ** 2\<close> is in range, \<open>basalmelting\<close> computes the
  same numbers in both readings.

  Arguments are scalars: the calls of \<^verbatim>\<open>sens_study\<close> on NumPy arrays, which the notebook
  makes for its plots, apply the scalar function to each element.
\<close>

subsection \<open>Constants\<close>

definition y1 :: real where "y1 = - 573 / 10000"  \<comment> \<open>\<^verbatim>\<open>-5.73e-2\<close>\<close>
definition y2 :: real where "y2 = 832 / 10000"  \<comment> \<open>\<^verbatim>\<open>8.32e-2\<close>\<close>
definition y3 :: real where "y3 = 761 / 1000000"  \<comment> \<open>\<^verbatim>\<open>7.61e-4\<close>\<close>
definition c_i :: real where "c_i = 2009"
definition c_p :: real where "c_p = 3974"
definition L :: real where "L = 334000"  \<comment> \<open>\<^verbatim>\<open>3.34e5\<close>\<close>
definition St_T :: real where "St_T = 11 / 10000"  \<comment> \<open>\<^verbatim>\<open>1.1e-3\<close>\<close>
definition St_S :: real where "St_S = 31 / 1000000"  \<comment> \<open>\<^verbatim>\<open>3.1e-5\<close>\<close>
definition E_0 :: real where "E_0 = 36 / 1000"  \<comment> \<open>\<^verbatim>\<open>3.6e-2\<close>\<close>

subsection \<open>Boundary conditions\<close>

definition T_i :: real where "T_i = - 20"
definition h :: real where "h = 10"
definition l :: real where "l = 80000"
definition w :: real where "w = 20000"
definition z_g :: real where "z_g = - 600"
definition u :: real where "u = 2 / 10"  \<comment> \<open>\<^verbatim>\<open>0.2\<close>\<close>
definition A :: real where "A = w * l"
definition V :: real where "V = A * h"
definition sin_alpha :: real where "sin_alpha = sin (arctan (\<bar>z_g\<bar> / l))"
definition gamma_T :: real where "gamma_T = St_T * u"
definition gamma_S :: real where "gamma_S = St_S * u"

subsection \<open>Freezing temperature\<close>

definition freeze :: "real \<Rightarrow> real \<Rightarrow> real" where
  "freeze S z_b = (let T = y1 * S + y2 + y3 * z_b in T)"

subsection \<open>Basal melting\<close>

definition s_yr :: real where "s_yr = 3600 * 24 * 365"

text \<open>The dictionary that \<^verbatim>\<open>basalmelting\<close> returns, one field for each key.\<close>

record melt =
  bm_S_b :: real
  bm_T_b :: real
  bm_v_b :: real

definition basalmelting :: "real \<Rightarrow> real \<Rightarrow> real \<Rightarrow> melt" where
  "basalmelting S T z_b =
    (let a = y1 * (gamma_T - gamma_S * c_i / c_p);
         b = gamma_T * (y2 + y3 * z_b - T)
               + gamma_S / c_p * (c_i * (y1 * S - y2 - y3 * z_b + T_i) - L);
         c = (gamma_S * S) / c_p * (c_i * (y3 * z_b - T_i) + L);
         S_b = - (b + sqrt (b ^ 2 - 4 * a * c)) / (2 * a);
         T_b = y1 * S_b + y2 + y3 * z_b;
         v_b = (gamma_S * (S - S_b)) / S_b
     in \<lparr>bm_S_b = S_b, bm_T_b = T_b, bm_v_b = v_b * s_yr\<rparr>)"

text \<open>
  The three local variables \<^verbatim>\<open>a\<close>, \<^verbatim>\<open>b\<close> and \<^verbatim>\<open>c\<close> of \<^verbatim>\<open>basalmelting\<close>, and the
  radicand of its square root, each as a function of the arguments it depends on.
\<close>

definition coeff_a :: real where
  "coeff_a = y1 * (gamma_T - gamma_S * c_i / c_p)"

definition coeff_b :: "real \<Rightarrow> real \<Rightarrow> real \<Rightarrow> real" where
  "coeff_b S T z_b =
     gamma_T * (y2 + y3 * z_b - T)
       + gamma_S / c_p * (c_i * (y1 * S - y2 - y3 * z_b + T_i) - L)"

definition coeff_c :: "real \<Rightarrow> real \<Rightarrow> real" where
  "coeff_c S z_b = (gamma_S * S) / c_p * (c_i * (y3 * z_b - T_i) + L)"

definition discriminant :: "real \<Rightarrow> real \<Rightarrow> real \<Rightarrow> real" where
  "discriminant S T z_b = (coeff_b S T z_b) ^ 2 - 4 * coeff_a * coeff_c S z_b"

subsection \<open>The box model\<close>

definition S_g :: real where "S_g = 0"
definition T_g :: real where "T_g = freeze S_g z_g"
definition v_e :: real where "v_e = E_0 * u * sin_alpha"
definition Q_a :: real where "Q_a = v_e * A"
definition dt :: real where "dt = 10000"
definition N :: nat where "N = 200"

text \<open>
  The variables of \<^verbatim>\<open>boxmodel\<close> that live across iterations: the seven arrays and the
  plume salinity \<^verbatim>\<open>S\<close> and temperature \<^verbatim>\<open>T\<close>. An array entry is \<^const>\<open>None\<close> while
  it holds the fill value \<^verbatim>\<open>np.nan\<close>.
\<close>

record box_vars =
  v_b_n :: "real option list"
  S_n :: "real option list"
  T_n :: "real option list"
  Q_m_n :: "real option list"
  Q_out_n :: "real option list"
  S_b_n :: "real option list"
  T_b_n :: "real option list"
  plume_S :: real
  plume_T :: real

definition boxmodel_init :: "real \<Rightarrow> box_vars" where
  "boxmodel_init z_b =
    (let S = 30 in
     \<lparr>v_b_n = replicate N None, S_n = replicate N None, T_n = replicate N None,
      Q_m_n = replicate N None, Q_out_n = replicate N None, S_b_n = replicate N None,
      T_b_n = replicate N None, plume_S = S, plume_T = freeze S z_b\<rparr>)"

text \<open>
  The body of the loop of \<^verbatim>\<open>boxmodel\<close> at index \<open>i\<close>. The index is below \<^const>\<open>N\<close>, the
  length of the arrays, whenever the loop runs the body, so each write is in range.
\<close>

definition boxmodel_body ::
  "real \<Rightarrow> real \<Rightarrow> real \<Rightarrow> real \<Rightarrow> nat \<Rightarrow> box_vars \<Rightarrow> box_vars" where
  "boxmodel_body S_a T_a Q_g z_b i s =
    (let S = plume_S s; T = plume_T s;
         bmelt = basalmelting S T z_b;
         S_b = bm_S_b bmelt;
         T_b = bm_T_b bmelt;
         v_b = (gamma_S * (S - S_b)) / S_b;
         Q_m = v_b * A;
         Q = - (Q_g + Q_m + Q_a);
         S' = (Q_a * S_a + V / dt * S) / (V / dt - Q);
         T' = (Q_a * T_a + Q_g * T_g + (Q_m + A * gamma_T) * T_b + V / dt * T)
                / (V / dt - Q + A * gamma_T)
     in \<lparr>v_b_n = (v_b_n s)[i := Some v_b],
         S_n = (S_n s)[i := Some S'],
         T_n = (T_n s)[i := Some T'],
         Q_m_n = (Q_m_n s)[i := Some Q_m],
         Q_out_n = (Q_out_n s)[i := Some Q],
         S_b_n = (S_b_n s)[i := Some S_b],
         T_b_n = (T_b_n s)[i := Some T_b],
         plume_S = S', plume_T = T'\<rparr>)"

text \<open>The variables after the first \<open>n\<close> iterations of \<^verbatim>\<open>for i in range(n)\<close>.\<close>

definition boxmodel_loop :: "real \<Rightarrow> real \<Rightarrow> real \<Rightarrow> real \<Rightarrow> nat \<Rightarrow> box_vars" where
  "boxmodel_loop S_a T_a Q_g z_b n =
     fold (boxmodel_body S_a T_a Q_g z_b) [0..<n] (boxmodel_init z_b)"

record box_result =
  box_v_b :: "real option list"
  box_S :: "real option list"
  box_T :: "real option list"
  box_S_b :: "real option list"
  box_T_b :: "real option list"
  box_Q_m :: "real option list"
  box_Q_out :: "real option list"

definition boxmodel :: "real \<Rightarrow> real \<Rightarrow> real \<Rightarrow> real \<Rightarrow> box_result" where
  "boxmodel S_a T_a Q_g z_b =
    (let s = boxmodel_loop S_a T_a Q_g z_b N
     in \<lparr>box_v_b = map (map_option (\<lambda>v. v * s_yr)) (v_b_n s),
         box_S = S_n s,
         box_T = T_n s,
         box_S_b = S_b_n s,
         box_T_b = T_b_n s,
         box_Q_m = Q_m_n s,
         box_Q_out = Q_out_n s\<rparr>)"

subsection \<open>Sensitivity study\<close>

datatype error = UnboundLocalError | KeyError | ValueError | OverflowError | ZeroDivisionError

text \<open>
  The local variables of \<^verbatim>\<open>sens_study\<close>. Only \<^verbatim>\<open>S\<close> and \<^verbatim>\<open>T\<close> are bound before the
  loop; the others are \<^const>\<open>None\<close> until an iteration has assigned them.
\<close>

record sens_vars =
  sv_S :: real
  sv_T :: real
  sv_S_b :: "real option"
  sv_T_b :: "real option"
  sv_v_b :: "real option"
  sv_Q_m :: "real option"
  sv_Q :: "real option"

definition sens_init :: "real \<Rightarrow> sens_vars" where
  "sens_init z_b =
    (let S = 30 in
     \<lparr>sv_S = S, sv_T = freeze S z_b, sv_S_b = None, sv_T_b = None, sv_v_b = None,
      sv_Q_m = None, sv_Q = None\<rparr>)"

definition sens_body ::
  "real \<Rightarrow> real \<Rightarrow> real \<Rightarrow> real \<Rightarrow> nat \<Rightarrow> sens_vars \<Rightarrow> sens_vars" where
  "sens_body S_a T_a Q_g z_b i s =
    (let S = sv_S s; T = sv_T s;
         bmelt = basalmelting S T z_b;
         S_b = bm_S_b bmelt;
         T_b = bm_T_b bmelt;
         v_b = (gamma_S * (S - S_b)) / S_b;
         Q_m = v_b * A;
         Q = - (Q_g + Q_m + Q_a);
         S' = (Q_a * S_a + V / dt * S) / (V / dt - Q);
         T' = (Q_a * T_a + Q_g * T_g + (Q_m + A * gamma_T) * T_b + V / dt * T)
                / (V / dt - Q + A * gamma_T)
     in \<lparr>sv_S = S', sv_T = T', sv_S_b = Some S_b, sv_T_b = Some T_b, sv_v_b = Some v_b,
         sv_Q_m = Some Q_m, sv_Q = Some Q\<rparr>)"

definition sens_loop :: "real \<Rightarrow> real \<Rightarrow> real \<Rightarrow> real \<Rightarrow> nat \<Rightarrow> sens_vars" where
  "sens_loop S_a T_a Q_g z_b n =
     fold (sens_body S_a T_a Q_g z_b) [0..<n] (sens_init z_b)"

record sens_result =
  ss_v_b :: real
  ss_S :: real
  ss_T :: real
  ss_S_b :: real
  ss_T_b :: real
  ss_Q_m :: real
  ss_Q_out :: real

text \<open>
  The \<^verbatim>\<open>return\<close> reads the variables that only the loop binds: where one has no value,
  Python raises \<^verbatim>\<open>UnboundLocalError\<close>.
\<close>

definition sens_study :: "real \<Rightarrow> real \<Rightarrow> real \<Rightarrow> real \<Rightarrow> error + sens_result" where
  "sens_study S_a T_a Q_g z_b =
    (let s = sens_loop S_a T_a Q_g z_b N
     in case (sv_v_b s, sv_S_b s, sv_T_b s, sv_Q_m s, sv_Q s) of
          (Some v_b, Some S_b, Some T_b, Some Q_m, Some Q) \<Rightarrow>
            Inr \<lparr>ss_v_b = v_b * s_yr, ss_S = sv_S s, ss_T = sv_T s, ss_S_b = S_b,
                 ss_T_b = T_b, ss_Q_m = Q_m, ss_Q_out = Q\<rparr>
        | _ \<Rightarrow> Inl UnboundLocalError)"

subsection \<open>Varying two parameters\<close>

text \<open>Subscripting the dictionary that \<^verbatim>\<open>sens_study\<close> returns.\<close>

definition getitem :: "sens_result \<Rightarrow> string \<Rightarrow> error + real" where
  "getitem r key =
    (if key = ''v_b'' then Inr (ss_v_b r)
     else if key = ''S'' then Inr (ss_S r)
     else if key = ''T'' then Inr (ss_T r)
     else if key = ''S_b'' then Inr (ss_S_b r)
     else if key = ''T_b'' then Inr (ss_T_b r)
     else if key = ''Q_m'' then Inr (ss_Q_m r)
     else if key = ''Q_out'' then Inr (ss_Q_out r)
     else Inl KeyError)"

text \<open>The expression \<^verbatim>\<open>sens_study(salt, temp, Q_g, z_b)[Quantity]\<close>.\<close>

definition sens_quantity :: "real \<Rightarrow> real \<Rightarrow> real \<Rightarrow> real \<Rightarrow> string \<Rightarrow> error + real" where
  "sens_quantity salt temp Q_g z_b Quantity =
    (case sens_study salt temp Q_g z_b of
       Inl e \<Rightarrow> Inl e
     | Inr r \<Rightarrow> getitem r Quantity)"

text \<open>
  The inner loop of \<^verbatim>\<open>variation\<close> over the indices \<open>k\<close> still to visit, for a fixed
  \<open>i\<close>, and its outer loop over the indices \<open>i\<close> still to visit. An entry of the
  colormap is \<^const>\<open>None\<close> where the program stores \<^verbatim>\<open>np.nan\<close>.
\<close>

fun variation_inner ::
  "real \<Rightarrow> real \<Rightarrow> real \<Rightarrow> real \<Rightarrow> real \<Rightarrow> real \<Rightarrow> string \<Rightarrow> int \<Rightarrow> nat \<Rightarrow> nat list
     \<Rightarrow> real option list list \<Rightarrow> error + real option list list" where
  "variation_inner S_bot S_top T_bot T_top Q_g z_b Quantity X i [] colormap = Inr colormap"
| "variation_inner S_bot S_top T_bot T_top Q_g z_b Quantity X i (k # ks) colormap =
    (let salt = S_bot + real i * (S_top - S_bot) / real_of_int X;
         temp = T_bot + real k * (T_top - T_bot) / real_of_int X
     in if temp \<ge> y1 * salt + y2 + y3 * z_b then
          (case sens_quantity salt temp Q_g z_b Quantity of
             Inl e \<Rightarrow> Inl e
           | Inr v \<Rightarrow>
               variation_inner S_bot S_top T_bot T_top Q_g z_b Quantity X i ks
                 (colormap[i := (colormap ! i)[k := Some v]]))
        else
          variation_inner S_bot S_top T_bot T_top Q_g z_b Quantity X i ks
            (colormap[i := (colormap ! i)[k := None]]))"

fun variation_outer ::
  "real \<Rightarrow> real \<Rightarrow> real \<Rightarrow> real \<Rightarrow> real \<Rightarrow> real \<Rightarrow> string \<Rightarrow> int \<Rightarrow> nat list
     \<Rightarrow> real option list list \<Rightarrow> error + real option list list" where
  "variation_outer S_bot S_top T_bot T_top Q_g z_b Quantity X [] colormap = Inr colormap"
| "variation_outer S_bot S_top T_bot T_top Q_g z_b Quantity X (i # is) colormap =
    (case variation_inner S_bot S_top T_bot T_top Q_g z_b Quantity X i [0..<nat X] colormap of
       Inl e \<Rightarrow> Inl e
     | Inr colormap' \<Rightarrow>
         variation_outer S_bot S_top T_bot T_top Q_g z_b Quantity X is colormap')"

text \<open>
  \<^verbatim>\<open>np.zeros((X, X))\<close> raises \<^verbatim>\<open>ValueError\<close> for a negative \<open>X\<close>; otherwise the loops
  run and the colormap is returned transposed.
\<close>

definition variation ::
  "real \<Rightarrow> real \<Rightarrow> real \<Rightarrow> real \<Rightarrow> real \<Rightarrow> real \<Rightarrow> string \<Rightarrow> int
     \<Rightarrow> error + real option list list" where
  "variation S_bot S_top T_bot T_top Q_g z_b Quantity X =
    (if X < 0 then Inl ValueError
     else
       (case variation_outer S_bot S_top T_bot T_top Q_g z_b Quantity X [0..<nat X]
               (replicate (nat X) (replicate (nat X) (Some 0))) of
          Inl e \<Rightarrow> Inl e
        | Inr colormap \<Rightarrow> Inr (transpose colormap)))"

subsection \<open>Notions for stating the properties\<close>

text \<open>
  The entries at one index of the seven arrays of \<^verbatim>\<open>boxmodel\<close>, and the seven arrays
  of its result, both in the order of the keys of the returned dictionary.
\<close>

definition box_entries :: "box_vars \<Rightarrow> nat \<Rightarrow> real option list" where
  "box_entries s i =
     [v_b_n s ! i, S_n s ! i, T_n s ! i, S_b_n s ! i, T_b_n s ! i, Q_m_n s ! i, Q_out_n s ! i]"

definition result_arrays :: "box_result \<Rightarrow> real option list list" where
  "result_arrays r = [box_v_b r, box_S r, box_T r, box_S_b r, box_T_b r, box_Q_m r, box_Q_out r]"

text \<open>The keys of the dictionary that \<^verbatim>\<open>sens_study\<close> returns.\<close>

definition result_keys :: "string list" where
  "result_keys = [''v_b'', ''S'', ''T'', ''S_b'', ''T_b'', ''Q_m'', ''Q_out'']"

text \<open>
  What the entry of the colormap for the grid point \<open>(i, k)\<close> is to be: the no-data
  value where the sampled temperature is below the freezing temperature of the sampled
  salinity, and \<^verbatim>\<open>sens_study(salt, temp, Q_g, z_b)[Quantity]\<close> otherwise. This is the
  statement of the property, to compare the loops of \<^verbatim>\<open>variation\<close> with.
\<close>

definition masked_entry ::
  "real \<Rightarrow> real \<Rightarrow> real \<Rightarrow> real \<Rightarrow> real \<Rightarrow> real \<Rightarrow> string \<Rightarrow> int \<Rightarrow> nat \<Rightarrow> nat
     \<Rightarrow> error + real option" where
  "masked_entry S_bot S_top T_bot T_top Q_g z_b Quantity X i k =
    (let salt = S_bot + real i * (S_top - S_bot) / real_of_int X;
         temp = T_bot + real k * (T_top - T_bot) / real_of_int X
     in if temp < y1 * salt + y2 + y3 * z_b then Inr None
        else (case sens_quantity salt temp Q_g z_b Quantity of
                Inl e \<Rightarrow> Inl e
              | Inr v \<Rightarrow> Inr (Some v)))"

section \<open>The program on Python and NumPy scalars\<close>

text \<open>
  A second reading of the same functions, for what the first one leaves out: the values
  not-a-number and plus and minus infinity, and the exceptions of Python. A scalar is a
  real number or one of the three special values. Arithmetic on real numbers is still
  exact; on the special values it follows IEEE 754. Not modelled are rounding, the
  overflow of \<^verbatim>\<open>+\<close>, \<^verbatim>\<open>-\<close>, \<^verbatim>\<open>*\<close> and \<^verbatim>\<open>/\<close> to an infinity, and the sign of zero: a zero
  divisor is read as \<^verbatim>\<open>+0.0\<close>.
\<close>

datatype fval = Fin real | PInf | NInf | NaN

fun fneg :: "fval \<Rightarrow> fval" where
  "fneg (Fin r) = Fin (- r)"
| "fneg PInf = NInf"
| "fneg NInf = PInf"
| "fneg NaN = NaN"

fun fadd :: "fval \<Rightarrow> fval \<Rightarrow> fval" where
  "fadd NaN y = NaN"
| "fadd x NaN = NaN"
| "fadd (Fin r) (Fin s) = Fin (r + s)"
| "fadd PInf NInf = NaN"
| "fadd NInf PInf = NaN"
| "fadd PInf y = PInf"
| "fadd x PInf = PInf"
| "fadd NInf y = NInf"
| "fadd x NInf = NInf"

definition fsub :: "fval \<Rightarrow> fval \<Rightarrow> fval" where
  "fsub x y = fadd x (fneg y)"

fun fmul :: "fval \<Rightarrow> fval \<Rightarrow> fval" where
  "fmul NaN y = NaN"
| "fmul x NaN = NaN"
| "fmul (Fin r) (Fin s) = Fin (r * s)"
| "fmul (Fin r) PInf = (if r = 0 then NaN else if 0 < r then PInf else NInf)"
| "fmul (Fin r) NInf = (if r = 0 then NaN else if 0 < r then NInf else PInf)"
| "fmul PInf (Fin s) = (if s = 0 then NaN else if 0 < s then PInf else NInf)"
| "fmul NInf (Fin s) = (if s = 0 then NaN else if 0 < s then NInf else PInf)"
| "fmul PInf PInf = PInf"
| "fmul PInf NInf = NInf"
| "fmul NInf PInf = NInf"
| "fmul NInf NInf = PInf"

text \<open>
  Division where an operand is a \<^verbatim>\<open>numpy.float64\<close>: a zero divisor gives not-a-number
  or an infinity, with a warning and no exception.
\<close>

fun fdiv :: "fval \<Rightarrow> fval \<Rightarrow> fval" where
  "fdiv NaN y = NaN"
| "fdiv x NaN = NaN"
| "fdiv (Fin r) (Fin s) =
     (if s = 0 then (if r = 0 then NaN else if 0 < r then PInf else NInf) else Fin (r / s))"
| "fdiv (Fin r) PInf = Fin 0"
| "fdiv (Fin r) NInf = Fin 0"
| "fdiv PInf (Fin s) = (if 0 \<le> s then PInf else NInf)"
| "fdiv NInf (Fin s) = (if 0 \<le> s then NInf else PInf)"
| "fdiv PInf y = NaN"
| "fdiv NInf y = NaN"

text \<open>\<^verbatim>\<open>np.sqrt\<close>: not-a-number for a negative argument, with a warning and no exception.\<close>

fun fsqrt :: "fval \<Rightarrow> fval" where
  "fsqrt (Fin r) = (if r < 0 then NaN else Fin (sqrt r))"
| "fsqrt PInf = PInf"
| "fsqrt NInf = NaN"
| "fsqrt NaN = NaN"

text \<open>The comparisons \<^verbatim>\<open>x >= y\<close> and \<^verbatim>\<open>x == y\<close>: false whenever an operand is not-a-number.\<close>

fun fge :: "fval \<Rightarrow> fval \<Rightarrow> bool" where
  "fge NaN y = False"
| "fge x NaN = False"
| "fge (Fin r) (Fin s) = (s \<le> r)"
| "fge PInf y = True"
| "fge x NInf = True"
| "fge (Fin r) PInf = False"
| "fge NInf y = False"

fun feq :: "fval \<Rightarrow> fval \<Rightarrow> bool" where
  "feq NaN y = False"
| "feq x NaN = False"
| "feq x y = (x = y)"

text \<open>
  A scalar is a Python \<^verbatim>\<open>float\<close> or a \<^verbatim>\<open>numpy.float64\<close>; the result of an operation is a
  \<^verbatim>\<open>numpy.float64\<close> as soon as one operand is. The two kinds differ where the result of
  \<^verbatim>\<open>x ** 2\<close> is beyond the largest double: at or above \<open>2 ^ 1024 - 2 ^ 970\<close> the square
  rounds to infinity, Python raises \<^verbatim>\<open>OverflowError\<close> and NumPy returns infinity. They
  also differ for a zero divisor: between two Python numbers \<^verbatim>\<open>/\<close> raises
  \<^verbatim>\<open>ZeroDivisionError\<close>.
\<close>

datatype kind = Py | Np

definition overflow_threshold :: real where
  "overflow_threshold = 2 ^ 1024 - 2 ^ 970"

fun pow2 :: "kind \<Rightarrow> fval \<Rightarrow> error + fval" where
  "pow2 Py (Fin r) =
     (if overflow_threshold \<le> r ^ 2 then Inl OverflowError else Inr (Fin (r ^ 2)))"
| "pow2 Np (Fin r) = Inr (if overflow_threshold \<le> r ^ 2 then PInf else Fin (r ^ 2))"
| "pow2 k x = Inr (fmul x x)"

definition py_div :: "fval \<Rightarrow> fval \<Rightarrow> error + fval" where
  "py_div x y = (if y = Fin 0 then Inl ZeroDivisionError else Inr (fdiv x y))"

subsection \<open>Freezing temperature and basal melting\<close>

definition freeze_fp :: "fval \<Rightarrow> fval \<Rightarrow> fval" where
  "freeze_fp S z_b = (let T = fadd (fadd (fmul (Fin y1) S) (Fin y2)) (fmul (Fin y3) z_b) in T)"

record melt_fp =
  fp_S_b :: fval
  fp_T_b :: fval
  fp_v_b :: fval

text \<open>
  \<open>k\<close> is the kind of the local variable \<^verbatim>\<open>b\<close>: a Python \<^verbatim>\<open>float\<close> when \<^verbatim>\<open>S\<close>, \<^verbatim>\<open>T\<close> and
  \<^verbatim>\<open>z_b\<close> all are Python numbers, a \<^verbatim>\<open>numpy.float64\<close> otherwise. The constants are
  Python numbers, and a subexpression of constants only is written as the real number
  it denotes. \<^verbatim>\<open>np.sqrt\<close> returns a \<^verbatim>\<open>numpy.float64\<close>, so \<^verbatim>\<open>S_b\<close> is one, and the two
  divisions after it follow NumPy.
\<close>

definition basalmelting_fp :: "kind \<Rightarrow> fval \<Rightarrow> fval \<Rightarrow> fval \<Rightarrow> error + melt_fp" where
  "basalmelting_fp k S T z_b =
    (let a = Fin (y1 * (gamma_T - gamma_S * c_i / c_p));
         b = fadd (fmul (Fin gamma_T) (fsub (fadd (Fin y2) (fmul (Fin y3) z_b)) T))
               (fmul (Fin (gamma_S / c_p))
                 (fsub (fmul (Fin c_i)
                     (fadd (fsub (fsub (fmul (Fin y1) S) (Fin y2)) (fmul (Fin y3) z_b))
                       (Fin T_i)))
                   (Fin L)));
         c = fmul (fdiv (fmul (Fin gamma_S) S) (Fin c_p))
               (fadd (fmul (Fin c_i) (fsub (fmul (Fin y3) z_b) (Fin T_i))) (Fin L))
     in case pow2 k b of
          Inl e \<Rightarrow> Inl e
        | Inr b2 \<Rightarrow>
            (let S_b = fdiv (fneg (fadd b (fsqrt (fsub b2 (fmul (fmul (Fin 4) a) c)))))
                         (fmul (Fin 2) a);
                 T_b = fadd (fadd (fmul (Fin y1) S_b) (Fin y2)) (fmul (Fin y3) z_b);
                 v_b = fdiv (fmul (Fin gamma_S) (fsub S S_b)) S_b
             in Inr \<lparr>fp_S_b = S_b, fp_T_b = T_b, fp_v_b = fmul v_b (Fin s_yr)\<rparr>))"

subsection \<open>The box model and the sensitivity study\<close>

text \<open>
  The arguments are Python numbers. \<^verbatim>\<open>Q_a\<close> is a \<^verbatim>\<open>numpy.float64\<close>, since \<^verbatim>\<open>sin_alpha\<close>
  comes from \<^verbatim>\<open>np.sin\<close>; so \<^verbatim>\<open>S\<close> and \<^verbatim>\<open>T\<close> are Python numbers in the first iteration
  and \<^verbatim>\<open>numpy.float64\<close> after their first update, and every division of the loop body
  has a \<^verbatim>\<open>numpy.float64\<close> operand. An array entry is a scalar, \<^verbatim>\<open>np.nan\<close> at first.
\<close>

record box_vars_fp =
  v_b_n_fp :: "fval list"
  S_n_fp :: "fval list"
  T_n_fp :: "fval list"
  Q_m_n_fp :: "fval list"
  Q_out_n_fp :: "fval list"
  S_b_n_fp :: "fval list"
  T_b_n_fp :: "fval list"
  plume_S_fp :: fval
  plume_T_fp :: fval
  plume_kind :: kind

definition boxmodel_init_fp :: "fval \<Rightarrow> box_vars_fp" where
  "boxmodel_init_fp z_b =
    (let S = Fin 30 in
     \<lparr>v_b_n_fp = replicate N NaN, S_n_fp = replicate N NaN, T_n_fp = replicate N NaN,
      Q_m_n_fp = replicate N NaN, Q_out_n_fp = replicate N NaN, S_b_n_fp = replicate N NaN,
      T_b_n_fp = replicate N NaN, plume_S_fp = S, plume_T_fp = freeze_fp S z_b,
      plume_kind = Py\<rparr>)"

definition boxmodel_body_fp ::
  "fval \<Rightarrow> fval \<Rightarrow> fval \<Rightarrow> fval \<Rightarrow> nat \<Rightarrow> box_vars_fp \<Rightarrow> error + box_vars_fp" where
  "boxmodel_body_fp S_a T_a Q_g z_b i s =
    (let S = plume_S_fp s; T = plume_T_fp s
     in case basalmelting_fp (plume_kind s) S T z_b of
          Inl e \<Rightarrow> Inl e
        | Inr bmelt \<Rightarrow>
            (let S_b = fp_S_b bmelt;
                 T_b = fp_T_b bmelt;
                 v_b = fdiv (fmul (Fin gamma_S) (fsub S S_b)) S_b;
                 Q_m = fmul v_b (Fin A);
                 Q = fneg (fadd (fadd Q_g Q_m) (Fin Q_a));
                 S' = fdiv (fadd (fmul (Fin Q_a) S_a) (fmul (Fin (V / dt)) S))
                        (fsub (Fin (V / dt)) Q);
                 T' = fdiv (fadd (fadd (fadd (fmul (Fin Q_a) T_a) (fmul Q_g (Fin T_g)))
                                (fmul (fadd Q_m (Fin (A * gamma_T))) T_b))
                          (fmul (Fin (V / dt)) T))
                        (fadd (fsub (Fin (V / dt)) Q) (Fin (A * gamma_T)))
             in Inr \<lparr>v_b_n_fp = (v_b_n_fp s)[i := v_b],
                     S_n_fp = (S_n_fp s)[i := S'],
                     T_n_fp = (T_n_fp s)[i := T'],
                     Q_m_n_fp = (Q_m_n_fp s)[i := Q_m],
                     Q_out_n_fp = (Q_out_n_fp s)[i := Q],
                     S_b_n_fp = (S_b_n_fp s)[i := S_b],
                     T_b_n_fp = (T_b_n_fp s)[i := T_b],
                     plume_S_fp = S', plume_T_fp = T', plume_kind = Np\<rparr>))"

text \<open>The loop over the indices still to visit; an exception ends it.\<close>

fun boxmodel_loop_fp ::
  "fval \<Rightarrow> fval \<Rightarrow> fval \<Rightarrow> fval \<Rightarrow> nat list \<Rightarrow> box_vars_fp \<Rightarrow> error + box_vars_fp" where
  "boxmodel_loop_fp S_a T_a Q_g z_b [] s = Inr s"
| "boxmodel_loop_fp S_a T_a Q_g z_b (i # is) s =
    (case boxmodel_body_fp S_a T_a Q_g z_b i s of
       Inl e \<Rightarrow> Inl e
     | Inr s' \<Rightarrow> boxmodel_loop_fp S_a T_a Q_g z_b is s')"

record box_result_fp =
  box_v_b_fp :: "fval list"
  box_S_fp :: "fval list"
  box_T_fp :: "fval list"
  box_S_b_fp :: "fval list"
  box_T_b_fp :: "fval list"
  box_Q_m_fp :: "fval list"
  box_Q_out_fp :: "fval list"

definition boxmodel_fp :: "fval \<Rightarrow> fval \<Rightarrow> fval \<Rightarrow> fval \<Rightarrow> error + box_result_fp" where
  "boxmodel_fp S_a T_a Q_g z_b =
    (case boxmodel_loop_fp S_a T_a Q_g z_b [0..<N] (boxmodel_init_fp z_b) of
       Inl e \<Rightarrow> Inl e
     | Inr s \<Rightarrow>
         Inr \<lparr>box_v_b_fp = map (\<lambda>v. fmul v (Fin s_yr)) (v_b_n_fp s),
              box_S_fp = S_n_fp s,
              box_T_fp = T_n_fp s,
              box_S_b_fp = S_b_n_fp s,
              box_T_b_fp = T_b_n_fp s,
              box_Q_m_fp = Q_m_n_fp s,
              box_Q_out_fp = Q_out_n_fp s\<rparr>)"

record sens_vars_fp =
  sv_S_fp :: fval
  sv_T_fp :: fval
  sv_kind :: kind
  sv_S_b_fp :: "fval option"
  sv_T_b_fp :: "fval option"
  sv_v_b_fp :: "fval option"
  sv_Q_m_fp :: "fval option"
  sv_Q_fp :: "fval option"

definition sens_init_fp :: "fval \<Rightarrow> sens_vars_fp" where
  "sens_init_fp z_b =
    (let S = Fin 30 in
     \<lparr>sv_S_fp = S, sv_T_fp = freeze_fp S z_b, sv_kind = Py, sv_S_b_fp = None,
      sv_T_b_fp = None, sv_v_b_fp = None, sv_Q_m_fp = None, sv_Q_fp = None\<rparr>)"

definition sens_body_fp ::
  "fval \<Rightarrow> fval \<Rightarrow> fval \<Rightarrow> fval \<Rightarrow> nat \<Rightarrow> sens_vars_fp \<Rightarrow> error + sens_vars_fp" where
  "sens_body_fp S_a T_a Q_g z_b i s =
    (let S = sv_S_fp s; T = sv_T_fp s
     in case basalmelting_fp (sv_kind s) S T z_b of
          Inl e \<Rightarrow> Inl e
        | Inr bmelt \<Rightarrow>
            (let S_b = fp_S_b bmelt;
                 T_b = fp_T_b bmelt;
                 v_b = fdiv (fmul (Fin gamma_S) (fsub S S_b)) S_b;
                 Q_m = fmul v_b (Fin A);
                 Q = fneg (fadd (fadd Q_g Q_m) (Fin Q_a));
                 S' = fdiv (fadd (fmul (Fin Q_a) S_a) (fmul (Fin (V / dt)) S))
                        (fsub (Fin (V / dt)) Q);
                 T' = fdiv (fadd (fadd (fadd (fmul (Fin Q_a) T_a) (fmul Q_g (Fin T_g)))
                                (fmul (fadd Q_m (Fin (A * gamma_T))) T_b))
                          (fmul (Fin (V / dt)) T))
                        (fadd (fsub (Fin (V / dt)) Q) (Fin (A * gamma_T)))
             in Inr \<lparr>sv_S_fp = S', sv_T_fp = T', sv_kind = Np, sv_S_b_fp = Some S_b,
                     sv_T_b_fp = Some T_b, sv_v_b_fp = Some v_b, sv_Q_m_fp = Some Q_m,
                     sv_Q_fp = Some Q\<rparr>))"

fun sens_loop_fp ::
  "fval \<Rightarrow> fval \<Rightarrow> fval \<Rightarrow> fval \<Rightarrow> nat list \<Rightarrow> sens_vars_fp \<Rightarrow> error + sens_vars_fp" where
  "sens_loop_fp S_a T_a Q_g z_b [] s = Inr s"
| "sens_loop_fp S_a T_a Q_g z_b (i # is) s =
    (case sens_body_fp S_a T_a Q_g z_b i s of
       Inl e \<Rightarrow> Inl e
     | Inr s' \<Rightarrow> sens_loop_fp S_a T_a Q_g z_b is s')"

record sens_result_fp =
  ss_v_b_fp :: fval
  ss_S_fp :: fval
  ss_T_fp :: fval
  ss_S_b_fp :: fval
  ss_T_b_fp :: fval
  ss_Q_m_fp :: fval
  ss_Q_out_fp :: fval

definition sens_study_fp :: "fval \<Rightarrow> fval \<Rightarrow> fval \<Rightarrow> fval \<Rightarrow> error + sens_result_fp" where
  "sens_study_fp S_a T_a Q_g z_b =
    (case sens_loop_fp S_a T_a Q_g z_b [0..<N] (sens_init_fp z_b) of
       Inl e \<Rightarrow> Inl e
     | Inr s \<Rightarrow>
         (case (sv_v_b_fp s, sv_S_b_fp s, sv_T_b_fp s, sv_Q_m_fp s, sv_Q_fp s) of
            (Some v_b, Some S_b, Some T_b, Some Q_m, Some Q) \<Rightarrow>
              Inr \<lparr>ss_v_b_fp = fmul v_b (Fin s_yr), ss_S_fp = sv_S_fp s, ss_T_fp = sv_T_fp s,
                   ss_S_b_fp = S_b, ss_T_b_fp = T_b, ss_Q_m_fp = Q_m, ss_Q_out_fp = Q\<rparr>
          | _ \<Rightarrow> Inl UnboundLocalError))"

subsection \<open>Varying two parameters\<close>

definition getitem_fp :: "sens_result_fp \<Rightarrow> string \<Rightarrow> error + fval" where
  "getitem_fp r key =
    (if key = ''v_b'' then Inr (ss_v_b_fp r)
     else if key = ''S'' then Inr (ss_S_fp r)
     else if key = ''T'' then Inr (ss_T_fp r)
     else if key = ''S_b'' then Inr (ss_S_b_fp r)
     else if key = ''T_b'' then Inr (ss_T_b_fp r)
     else if key = ''Q_m'' then Inr (ss_Q_m_fp r)
     else if key = ''Q_out'' then Inr (ss_Q_out_fp r)
     else Inl KeyError)"

text \<open>
  One sample \<^verbatim>\<open>low + j * (high - low) / X\<close> of the grid, as \<^verbatim>\<open>salt\<close> and \<^verbatim>\<open>temp\<close> are
  computed: the division is between Python numbers, \<open>X\<close> a Python \<^verbatim>\<open>int\<close>.
\<close>

definition grid_sample :: "fval \<Rightarrow> fval \<Rightarrow> int \<Rightarrow> nat \<Rightarrow> error + fval" where
  "grid_sample low high X j =
    (case py_div (fmul (Fin (real j)) (fsub high low)) (Fin (real_of_int X)) of
       Inl e \<Rightarrow> Inl e
     | Inr d \<Rightarrow> Inr (fadd low d))"

fun variation_inner_fp ::
  "fval \<Rightarrow> fval \<Rightarrow> fval \<Rightarrow> fval \<Rightarrow> fval \<Rightarrow> fval \<Rightarrow> string \<Rightarrow> int \<Rightarrow> nat \<Rightarrow> nat list
     \<Rightarrow> fval list list \<Rightarrow> error + fval list list" where
  "variation_inner_fp S_bot S_top T_bot T_top Q_g z_b Quantity X i [] colormap = Inr colormap"
| "variation_inner_fp S_bot S_top T_bot T_top Q_g z_b Quantity X i (k # ks) colormap =
    (case grid_sample S_bot S_top X i of
       Inl e \<Rightarrow> Inl e
     | Inr salt \<Rightarrow>
         (case grid_sample T_bot T_top X k of
            Inl e \<Rightarrow> Inl e
          | Inr temp \<Rightarrow>
              if fge temp (fadd (fadd (fmul (Fin y1) salt) (Fin y2)) (fmul (Fin y3) z_b)) then
                (case sens_study_fp salt temp Q_g z_b of
                   Inl e \<Rightarrow> Inl e
                 | Inr r \<Rightarrow>
                     (case getitem_fp r Quantity of
                        Inl e \<Rightarrow> Inl e
                      | Inr v \<Rightarrow>
                          variation_inner_fp S_bot S_top T_bot T_top Q_g z_b Quantity X i ks
                            (colormap[i := (colormap ! i)[k := v]])))
              else
                variation_inner_fp S_bot S_top T_bot T_top Q_g z_b Quantity X i ks
                  (colormap[i := (colormap ! i)[k := NaN]])))"

fun variation_outer_fp ::
  "fval \<Rightarrow> fval \<Rightarrow> fval \<Rightarrow> fval \<Rightarrow> fval \<Rightarrow> fval \<Rightarrow> string \<Rightarrow> int \<Rightarrow> nat list
     \<Rightarrow> fval list list \<Rightarrow> error + fval list list" where
  "variation_outer_fp S_bot S_top T_bot T_top Q_g z_b Quantity X [] colormap = Inr colormap"
| "variation_outer_fp S_bot S_top T_bot T_top Q_g z_b Quantity X (i # is) colormap =
    (case variation_inner_fp S_bot S_top T_bot T_top Q_g z_b Quantity X i [0..<nat X]
            colormap of
       Inl e \<Rightarrow> Inl e
     | Inr colormap' \<Rightarrow>
         variation_outer_fp S_bot S_top T_bot T_top Q_g z_b Quantity X is colormap')"

definition variation_fp ::
  "fval \<Rightarrow> fval \<Rightarrow> fval \<Rightarrow> fval \<Rightarrow> fval \<Rightarrow> fval \<Rightarrow> string \<Rightarrow> int
     \<Rightarrow> error + fval list list" where
  "variation_fp S_bot S_top T_bot T_top Q_g z_b Quantity X =
    (if X < 0 then Inl ValueError
     else
       (case variation_outer_fp S_bot S_top T_bot T_top Q_g z_b Quantity X [0..<nat X]
               (replicate (nat X) (replicate (nat X) (Fin 0))) of
          Inl e \<Rightarrow> Inl e
        | Inr colormap \<Rightarrow> Inr (transpose colormap)))"

section \<open>Properties of the freezing line and of the melt closure\<close>

lemma basalmelting_S_b:
  "bm_S_b (basalmelting S T z_b) =
     - (coeff_b S T z_b + sqrt (discriminant S T z_b)) / (2 * coeff_a)"
  by (simp add: basalmelting_def Let_def coeff_a_def coeff_b_def coeff_c_def discriminant_def)

lemma basalmelting_T_b:
  "bm_T_b (basalmelting S T z_b) = y1 * bm_S_b (basalmelting S T z_b) + y2 + y3 * z_b"
  by (simp add: basalmelting_def Let_def)

lemma basalmelting_v_b:
  "bm_v_b (basalmelting S T z_b) =
     (gamma_S * (S - bm_S_b (basalmelting S T z_b))) / bm_S_b (basalmelting S T z_b) * s_yr"
  by (simp add: basalmelting_def Let_def)

lemma coeff_a_neg: "coeff_a < 0"
  by (simp add: coeff_a_def y1_def gamma_T_def gamma_S_def St_T_def St_S_def u_def
      c_i_def c_p_def)

lemma quadratic_root:
  fixes a b c :: real
  assumes "a \<noteq> 0" "0 \<le> b ^ 2 - 4 * a * c"
  defines "x \<equiv> - (b + sqrt (b ^ 2 - 4 * a * c)) / (2 * a)"
  shows "a * x ^ 2 + b * x + c = 0"
proof -
  define d where "d = sqrt (b ^ 2 - 4 * a * c)"
  have dd: "d ^ 2 = b ^ 2 - 4 * a * c"
    using assms(2) by (simp add: d_def)
  have x: "x = - (b + d) / (2 * a)"
    by (simp add: x_def d_def)
  have "4 * a * (a * x ^ 2 + b * x + c) = (b + d) ^ 2 - 2 * b * (b + d) + 4 * a * c"
    using assms(1) unfolding x by (simp add: field_simps power2_eq_square)
  also have "\<dots> = d ^ 2 - b ^ 2 + 4 * a * c"
    by (simp add: power2_eq_square algebra_simps)
  also have "\<dots> = 0"
    by (simp add: dd)
  finally show ?thesis
    using assms(1) by simp
qed

lemma quadratic_at_S:
  "coeff_a * S ^ 2 + coeff_b S T z_b * S + coeff_c S z_b =
     S * (gamma_T * (freeze S z_b - T) - gamma_S * c_i * y2 / c_p)"
proof -
  have "c_p \<noteq> 0" by (simp add: c_p_def)
  then show ?thesis
    by (simp add: coeff_a_def coeff_b_def coeff_c_def freeze_def field_simps power2_eq_square)
qed

lemma root_positive:
  fixes a b c :: real
  assumes a: "a < 0" and c: "0 < c"
  defines "x \<equiv> - (b + sqrt (b ^ 2 - 4 * a * c)) / (2 * a)"
  shows "0 < b ^ 2 - 4 * a * c" and "0 < x"
proof -
  define D where "D = b ^ 2 - 4 * a * c"
  have "a * c < 0"
    using a c by (simp add: mult_neg_pos)
  then have D_gt: "b ^ 2 < D"
    by (simp add: D_def)
  moreover have "0 \<le> b ^ 2"
    by simp
  ultimately have "0 < D"
    by linarith
  then show "0 < b ^ 2 - 4 * a * c"
    by (simp add: D_def)
  have "\<bar>b\<bar> < sqrt D"
    using D_gt by (simp add: real_less_rsqrt)
  then have num: "0 < b + sqrt D"
    by linarith
  have x: "x = (b + sqrt D) / (- 2 * a)"
    using a by (simp add: x_def D_def field_simps)
  have "0 < - 2 * a"
    using a by simp
  with num show "0 < x"
    unfolding x by (rule divide_pos_pos)
qed

lemma root_below:
  fixes a b c s :: real
  assumes a: "a < 0" and c: "0 < c" and s: "0 < s" and p: "a * s ^ 2 + b * s + c < 0"
  defines "x \<equiv> - (b + sqrt (b ^ 2 - 4 * a * c)) / (2 * a)"
  shows "x < s"
proof -
  define D where "D = b ^ 2 - 4 * a * c"
  have x: "x = (b + sqrt D) / (- 2 * a)"
    using a by (simp add: x_def D_def field_simps)
  define t where "t = - 2 * a * s - b"
  have t_pos: "0 < t"
  proof (rule ccontr)
    assume "\<not> 0 < t"
    then have "- 2 * a * s \<le> b"
      by (simp add: t_def)
    then have "(- 2 * a * s) * s \<le> b * s"
      using s by (intro mult_right_mono) simp_all
    then have "- 2 * a * s * s \<le> b * s"
      by simp
    moreover have "0 < (- a) * (s * s)"
      using a s by (intro mult_pos_pos) simp_all
    then have "0 < - a * s * s"
      by (simp add: mult.assoc)
    ultimately have "0 < a * s ^ 2 + b * s + c"
      using c by (simp add: power2_eq_square)
    with p show False
      by simp
  qed
  have "t ^ 2 - D = 4 * a * (a * s ^ 2 + b * s + c)"
    by (simp add: t_def D_def power2_eq_square algebra_simps)
  moreover have "0 < 4 * a * (a * s ^ 2 + b * s + c)"
    using a p by (simp add: mult_neg_neg)
  ultimately have "D < t ^ 2"
    by simp
  then have "sqrt D < t"
    using t_pos by (simp add: real_less_lsqrt)
  then have "b + sqrt D < - 2 * a * s"
    by (simp add: t_def)
  then show "x < s"
    unfolding x using a by (simp add: field_simps)
qed

lemma coeff_c_pos:
  assumes "0 < S" "- 244000 \<le> z_b"
  shows "0 < coeff_c S z_b"
proof -
  have "0 < c_i * (y3 * z_b - T_i) + L"
    using assms(2) by (simp add: c_i_def y3_def T_i_def L_def)
  moreover have "0 < (gamma_S * S) / c_p"
    using assms(1) by (simp add: gamma_S_def St_S_def u_def c_p_def)
  ultimately show ?thesis
    unfolding coeff_c_def by (rule mult_pos_pos[rotated])
qed

lemma quadratic_at_S_neg:
  assumes "0 < S" "freeze S z_b \<le> T"
  shows "coeff_a * S ^ 2 + coeff_b S T z_b * S + coeff_c S z_b < 0"
proof -
  have "0 \<le> gamma_T" by (simp add: gamma_T_def St_T_def u_def)
  then have "gamma_T * (freeze S z_b - T) \<le> 0"
    using assms(2) by (simp add: mult_nonneg_nonpos)
  moreover have "0 < gamma_S * c_i * y2 / c_p"
    by (simp add: gamma_S_def St_S_def u_def c_i_def y2_def c_p_def)
  ultimately have "gamma_T * (freeze S z_b - T) - gamma_S * c_i * y2 / c_p < 0"
    by linarith
  then show ?thesis
    using assms(1) by (simp add: quadratic_at_S mult_pos_neg)
qed

text \<open>
  On the physically valid domain the closure stays inside real arithmetic at every
  temperature \<open>T\<close>, also below the freezing temperature: the radicand is positive and the
  boundary salinity, the divisor of the melt velocity, is positive.
\<close>

lemma basalmelting_well_defined:
  assumes "0 < S" "- 244000 \<le> z_b"
  shows "0 < discriminant S T z_b" and "0 < bm_S_b (basalmelting S T z_b)"
  using root_positive [OF coeff_a_neg coeff_c_pos [OF assms], of "coeff_b S T z_b"]
  by (simp_all add: basalmelting_S_b discriminant_def)

text \<open>
  Claim C6. The freezing temperature is affine in salinity and in depth:
  \<open>freeze S z_b\<close> is \<open>y1 * S + y2 + y3 * z_b\<close>, so at one depth two freezing
  temperatures differ by \<open>y1\<close> times the difference of the salinities, and at one
  salinity by \<open>y3\<close> times the difference of the depths.
\<close>

theorem freeze_affine:
  "freeze S z_b = y1 * S + y2 + y3 * z_b
   \<and> freeze S1 z - freeze S2 z = y1 * (S1 - S2)
   \<and> freeze S z1 - freeze S z2 = y3 * (z1 - z2)"
  by (simp add: freeze_def algebra_simps)

text \<open>
  Claim C3. Whenever the discriminant \<open>b\<^sup>2 - 4 * a * c\<close> is non-negative, the boundary
  salinity that \<open>basalmelting\<close> returns is the value \<open>- (b + sqrt (b\<^sup>2 - 4 * a * c)) / (2 * a)\<close>
  of the quadratic formula, and it is a root of \<open>a * x\<^sup>2 + b * x + c\<close>, for the
  coefficients \<open>a\<close>, \<open>b\<close>, \<open>c\<close> the function builds.
\<close>

theorem basalmelting_S_b_root:
  assumes "0 \<le> discriminant S T z_b"
  shows "bm_S_b (basalmelting S T z_b) =
           - (coeff_b S T z_b + sqrt ((coeff_b S T z_b) ^ 2 - 4 * coeff_a * coeff_c S z_b))
             / (2 * coeff_a)
         \<and> coeff_a * (bm_S_b (basalmelting S T z_b)) ^ 2
             + coeff_b S T z_b * bm_S_b (basalmelting S T z_b) + coeff_c S z_b = 0"
proof -
  have a: "coeff_a \<noteq> 0"
    using coeff_a_neg by simp
  have d: "0 \<le> (coeff_b S T z_b) ^ 2 - 4 * coeff_a * coeff_c S z_b"
    using assms by (simp add: discriminant_def)
  show ?thesis
    using quadratic_root [OF a d] by (simp add: basalmelting_S_b discriminant_def)
qed

theorem basalmelting_S_b_root_witness:
  "0 \<le> discriminant 30 (- 3 / 2) (- 300)
   \<and> coeff_a * (bm_S_b (basalmelting 30 (- 3 / 2) (- 300))) ^ 2
       + coeff_b 30 (- 3 / 2) (- 300) * bm_S_b (basalmelting 30 (- 3 / 2) (- 300))
       + coeff_c 30 (- 300) = 0"
proof -
  have d: "0 \<le> discriminant 30 (- 3 / 2) (- 300)"
    by (simp add: discriminant_def coeff_a_def coeff_b_def coeff_c_def y1_def y2_def y3_def
        gamma_T_def gamma_S_def St_T_def St_S_def u_def c_i_def c_p_def T_i_def L_def)
  show ?thesis
    using d basalmelting_S_b_root [OF d] by blast
qed

text \<open>
  In exact arithmetic, at or above the freezing temperature the boundary salinity lies
  below the salinity, so the melt velocity is non-negative.
\<close>

lemma melt_nonneg_real:
  assumes "0 < S" "- 244000 \<le> z_b" "freeze S z_b \<le> T"
  shows "0 \<le> bm_v_b (basalmelting S T z_b) \<and> 0 \<le> discriminant S T z_b
         \<and> 0 < bm_S_b (basalmelting S T z_b)"
proof -
  have "bm_S_b (basalmelting S T z_b) < S"
    using root_below [OF coeff_a_neg coeff_c_pos [OF assms(1,2)] assms(1)
        quadratic_at_S_neg [OF assms(1,3)]]
    by (simp add: basalmelting_S_b discriminant_def)
  moreover note Sb = basalmelting_well_defined(2) [OF assms(1,2), of T]
  moreover have "0 \<le> gamma_S"
    by (simp add: gamma_S_def St_S_def u_def)
  moreover have "0 \<le> s_yr"
    by (simp add: s_yr_def)
  ultimately have "0 \<le> bm_v_b (basalmelting S T z_b)"
    by (simp add: basalmelting_v_b)
  moreover have "0 \<le> discriminant S T z_b"
    using basalmelting_well_defined(1) [OF assms(1,2), of T] by simp
  ultimately show ?thesis
    using Sb by simp
qed

section \<open>The loops of the box model and of the sensitivity study\<close>

lemma boxmodel_loop_0: "boxmodel_loop S_a T_a Q_g z_b 0 = boxmodel_init z_b"
  by (simp add: boxmodel_loop_def)

lemma boxmodel_loop_Suc:
  "boxmodel_loop S_a T_a Q_g z_b (Suc n) =
     boxmodel_body S_a T_a Q_g z_b n (boxmodel_loop S_a T_a Q_g z_b n)"
  by (simp add: boxmodel_loop_def)

lemma boxmodel_body_lengths:
  "length (v_b_n (boxmodel_body S_a T_a Q_g z_b i s)) = length (v_b_n s)"
  "length (S_n (boxmodel_body S_a T_a Q_g z_b i s)) = length (S_n s)"
  "length (T_n (boxmodel_body S_a T_a Q_g z_b i s)) = length (T_n s)"
  "length (S_b_n (boxmodel_body S_a T_a Q_g z_b i s)) = length (S_b_n s)"
  "length (T_b_n (boxmodel_body S_a T_a Q_g z_b i s)) = length (T_b_n s)"
  "length (Q_m_n (boxmodel_body S_a T_a Q_g z_b i s)) = length (Q_m_n s)"
  "length (Q_out_n (boxmodel_body S_a T_a Q_g z_b i s)) = length (Q_out_n s)"
  by (simp_all add: boxmodel_body_def Let_def)

lemma boxmodel_loop_lengths:
  "length (v_b_n (boxmodel_loop S_a T_a Q_g z_b n)) = N"
  "length (S_n (boxmodel_loop S_a T_a Q_g z_b n)) = N"
  "length (T_n (boxmodel_loop S_a T_a Q_g z_b n)) = N"
  "length (S_b_n (boxmodel_loop S_a T_a Q_g z_b n)) = N"
  "length (T_b_n (boxmodel_loop S_a T_a Q_g z_b n)) = N"
  "length (Q_m_n (boxmodel_loop S_a T_a Q_g z_b n)) = N"
  "length (Q_out_n (boxmodel_loop S_a T_a Q_g z_b n)) = N"
  by (induction n)
    (simp_all add: boxmodel_loop_0 boxmodel_loop_Suc boxmodel_body_lengths boxmodel_init_def Let_def)

lemma box_entries_body_other:
  "i \<noteq> n \<Longrightarrow> box_entries (boxmodel_body S_a T_a Q_g z_b n s) i = box_entries s i"
  by (simp add: box_entries_def boxmodel_body_def Let_def)



lemma box_entries_kept:
  "i < n \<Longrightarrow>
     box_entries (boxmodel_loop S_a T_a Q_g z_b n) i =
     box_entries (boxmodel_loop S_a T_a Q_g z_b (Suc i)) i"
proof (induction n)
  case 0
  then show ?case by simp
next
  case (Suc n)
  show ?case
  proof (cases "i = n")
    case True
    then show ?thesis by simp
  next
    case False
    with Suc.prems have "i < n" by simp
    with Suc.IH False show ?thesis
      by (simp add: boxmodel_loop_Suc [of _ _ _ _ n] box_entries_body_other)
  qed
qed

lemma sens_loop_0: "sens_loop S_a T_a Q_g z_b 0 = sens_init z_b"
  by (simp add: sens_loop_def)

lemma sens_loop_Suc:
  "sens_loop S_a T_a Q_g z_b (Suc n) =
     sens_body S_a T_a Q_g z_b n (sens_loop S_a T_a Q_g z_b n)"
  by (simp add: sens_loop_def)

lemma boxmodel_body_melt:
  assumes "n < length (v_b_n s)" "n < length (S_b_n s)" "n < length (T_b_n s)"
  shows "S_b_n (boxmodel_body S_a T_a Q_g z_b n s) ! n =
           Some (bm_S_b (basalmelting (plume_S s) (plume_T s) z_b))"
    and "T_b_n (boxmodel_body S_a T_a Q_g z_b n s) ! n =
           Some (bm_T_b (basalmelting (plume_S s) (plume_T s) z_b))"
    and "v_b_n (boxmodel_body S_a T_a Q_g z_b n s) ! n =
           Some ((gamma_S * (plume_S s - bm_S_b (basalmelting (plume_S s) (plume_T s) z_b)))
                   / bm_S_b (basalmelting (plume_S s) (plume_T s) z_b))"
  using assms by (simp_all add: boxmodel_body_def Let_def)

lemma sens_body_melt:
  shows "sv_S_b (sens_body S_a T_a Q_g z_b n s) =
           Some (bm_S_b (basalmelting (sv_S s) (sv_T s) z_b))"
    and "sv_T_b (sens_body S_a T_a Q_g z_b n s) =
           Some (bm_T_b (basalmelting (sv_S s) (sv_T s) z_b))"
    and "sv_v_b (sens_body S_a T_a Q_g z_b n s) =
           Some ((gamma_S * (sv_S s - bm_S_b (basalmelting (sv_S s) (sv_T s) z_b)))
                   / bm_S_b (basalmelting (sv_S s) (sv_T s) z_b))"
  by (simp_all add: sens_body_def Let_def)

lemma bodies_agree:
  assumes "plume_S s = sv_S t" "plume_T s = sv_T t"
  shows "plume_S (boxmodel_body S_a T_a Q_g z_b n s) = sv_S (sens_body S_a T_a Q_g z_b n t)"
    and "plume_T (boxmodel_body S_a T_a Q_g z_b n s) = sv_T (sens_body S_a T_a Q_g z_b n t)"
  using assms by (simp_all add: boxmodel_body_def sens_body_def Let_def)

lemma bodies_agree_entries:
  assumes "plume_S s = sv_S t" "plume_T s = sv_T t"
    and "n < length (v_b_n s)" "n < length (S_n s)" "n < length (T_n s)"
    "n < length (S_b_n s)" "n < length (T_b_n s)" "n < length (Q_m_n s)"
    "n < length (Q_out_n s)"
  shows "box_entries (boxmodel_body S_a T_a Q_g z_b n s) n =
     (let t' = sens_body S_a T_a Q_g z_b n t
      in [sv_v_b t', Some (sv_S t'), Some (sv_T t'), sv_S_b t', sv_T_b t', sv_Q_m t', sv_Q t'])"
  using assms by (simp add: box_entries_def boxmodel_body_def sens_body_def Let_def)

lemma loops_agree:
  "plume_S (boxmodel_loop S_a T_a Q_g z_b n) = sv_S (sens_loop S_a T_a Q_g z_b n)
   \<and> plume_T (boxmodel_loop S_a T_a Q_g z_b n) = sv_T (sens_loop S_a T_a Q_g z_b n)"
proof (induction n)
  case 0
  show ?case
    by (simp add: boxmodel_loop_0 sens_loop_0 boxmodel_init_def sens_init_def Let_def)
next
  case (Suc n)
  then show ?case
    by (simp add: boxmodel_loop_Suc sens_loop_Suc bodies_agree)
qed

lemma loops_agree_entries:
  assumes "n < N"
  shows "box_entries (boxmodel_loop S_a T_a Q_g z_b (Suc n)) n =
     (let t' = sens_loop S_a T_a Q_g z_b (Suc n)
      in [sv_v_b t', Some (sv_S t'), Some (sv_T t'), sv_S_b t', sv_T_b t', sv_Q_m t', sv_Q t'])"
  unfolding boxmodel_loop_Suc sens_loop_Suc
  using assms loops_agree [of S_a T_a Q_g z_b n]
  by (intro bodies_agree_entries) (simp_all add: boxmodel_loop_lengths)

lemma N_pos: "0 < N"
  by (simp add: N_def)

lemma sens_body_bound:
  "\<exists>v_b S_b T_b Q_m Q.
     sv_v_b (sens_body S_a T_a Q_g z_b n s) = Some v_b
     \<and> sv_S_b (sens_body S_a T_a Q_g z_b n s) = Some S_b
     \<and> sv_T_b (sens_body S_a T_a Q_g z_b n s) = Some T_b
     \<and> sv_Q_m (sens_body S_a T_a Q_g z_b n s) = Some Q_m
     \<and> sv_Q (sens_body S_a T_a Q_g z_b n s) = Some Q"
  by (simp add: sens_body_def Let_def)

lemma sens_study_returns:
  "\<exists>r. sens_study S_a T_a Q_g z_b = Inr r
     \<and> sv_v_b (sens_loop S_a T_a Q_g z_b N) = Some (ss_v_b r / s_yr)
     \<and> ss_v_b r = the (sv_v_b (sens_loop S_a T_a Q_g z_b N)) * s_yr
     \<and> sv_S (sens_loop S_a T_a Q_g z_b N) = ss_S r
     \<and> sv_T (sens_loop S_a T_a Q_g z_b N) = ss_T r
     \<and> sv_S_b (sens_loop S_a T_a Q_g z_b N) = Some (ss_S_b r)
     \<and> sv_T_b (sens_loop S_a T_a Q_g z_b N) = Some (ss_T_b r)
     \<and> sv_Q_m (sens_loop S_a T_a Q_g z_b N) = Some (ss_Q_m r)
     \<and> sv_Q (sens_loop S_a T_a Q_g z_b N) = Some (ss_Q_out r)"
proof -
  obtain m where m: "N = Suc m"
    using N_pos by (cases N) simp_all
  obtain v_b S_b T_b Q_m Q where b:
    "sv_v_b (sens_loop S_a T_a Q_g z_b N) = Some v_b"
    "sv_S_b (sens_loop S_a T_a Q_g z_b N) = Some S_b"
    "sv_T_b (sens_loop S_a T_a Q_g z_b N) = Some T_b"
    "sv_Q_m (sens_loop S_a T_a Q_g z_b N) = Some Q_m"
    "sv_Q (sens_loop S_a T_a Q_g z_b N) = Some Q"
    unfolding m sens_loop_Suc using sens_body_bound by blast
  have "s_yr \<noteq> 0" by (simp add: s_yr_def)
  then show ?thesis
    by (simp add: sens_study_def Let_def b)
qed

lemma last_box_entries:
  "map last (result_arrays (boxmodel S_a T_a Q_g z_b)) =
     (let e = box_entries (boxmodel_loop S_a T_a Q_g z_b N) (N - 1)
      in map_option (\<lambda>v. v * s_yr) (hd e) # tl e)"
proof -
  have "N - 1 < N" using N_pos by simp
  moreover have "N \<noteq> 0" using N_pos by simp
  ultimately show ?thesis
    by (simp add: result_arrays_def boxmodel_def Let_def box_entries_def last_conv_nth
        boxmodel_loop_lengths flip: length_0_conv)
qed

text \<open>
  Claim C1. For every input \<open>(S_a, T_a, Q_g, z_b)\<close>, \<open>sens_study\<close> returns a result, and
  the last entry of each of the seven arrays that \<open>boxmodel\<close> returns (\<open>v_b\<close>, \<open>S\<close>,
  \<open>T\<close>, \<open>S_b\<close>, \<open>T_b\<close>, \<open>Q_m\<close>, \<open>Q_out\<close>) is the scalar that \<open>sens_study\<close> returns
  under the same key.
\<close>

theorem boxmodel_sens_study_agree:
  "\<exists>r. sens_study S_a T_a Q_g z_b = Inr r
     \<and> last (box_v_b (boxmodel S_a T_a Q_g z_b)) = Some (ss_v_b r)
     \<and> last (box_S (boxmodel S_a T_a Q_g z_b)) = Some (ss_S r)
     \<and> last (box_T (boxmodel S_a T_a Q_g z_b)) = Some (ss_T r)
     \<and> last (box_S_b (boxmodel S_a T_a Q_g z_b)) = Some (ss_S_b r)
     \<and> last (box_T_b (boxmodel S_a T_a Q_g z_b)) = Some (ss_T_b r)
     \<and> last (box_Q_m (boxmodel S_a T_a Q_g z_b)) = Some (ss_Q_m r)
     \<and> last (box_Q_out (boxmodel S_a T_a Q_g z_b)) = Some (ss_Q_out r)"
proof -
  obtain r where r: "sens_study S_a T_a Q_g z_b = Inr r"
    "ss_v_b r = the (sv_v_b (sens_loop S_a T_a Q_g z_b N)) * s_yr"
    "sv_v_b (sens_loop S_a T_a Q_g z_b N) = Some (ss_v_b r / s_yr)"
    "sv_S (sens_loop S_a T_a Q_g z_b N) = ss_S r"
    "sv_T (sens_loop S_a T_a Q_g z_b N) = ss_T r"
    "sv_S_b (sens_loop S_a T_a Q_g z_b N) = Some (ss_S_b r)"
    "sv_T_b (sens_loop S_a T_a Q_g z_b N) = Some (ss_T_b r)"
    "sv_Q_m (sens_loop S_a T_a Q_g z_b N) = Some (ss_Q_m r)"
    "sv_Q (sens_loop S_a T_a Q_g z_b N) = Some (ss_Q_out r)"
    using sens_study_returns by blast
  obtain m where m: "N = Suc m"
    using N_pos by (cases N) simp_all
  have "m < N" by (simp add: m)
  from loops_agree_entries [OF this, of S_a T_a Q_g z_b]
  have e: "box_entries (boxmodel_loop S_a T_a Q_g z_b N) (N - 1) =
      [Some (ss_v_b r / s_yr), Some (ss_S r), Some (ss_T r), Some (ss_S_b r), Some (ss_T_b r),
       Some (ss_Q_m r), Some (ss_Q_out r)]"
    unfolding m [symmetric] using r(3-) by (simp add: m Let_def)
  have "s_yr \<noteq> 0" by (simp add: s_yr_def)
  with last_box_entries [of S_a T_a Q_g z_b] e
  have "map last (result_arrays (boxmodel S_a T_a Q_g z_b)) =
      [Some (ss_v_b r), Some (ss_S r), Some (ss_T r), Some (ss_S_b r), Some (ss_T_b r),
       Some (ss_Q_m r), Some (ss_Q_out r)]"
    by (simp add: Let_def)
  with r(1) show ?thesis
    by (simp add: result_arrays_def)
qed





lemma inline_v_b:
  "(gamma_S * (S - bm_S_b (basalmelting S T z_b))) / bm_S_b (basalmelting S T z_b) =
     bm_v_b (basalmelting S T z_b) / s_yr"
proof -
  have "s_yr \<noteq> 0" by (simp add: s_yr_def)
  then show ?thesis by (simp add: basalmelting_v_b)
qed

lemma boxmodel_loop_melt:
  assumes "i < N"
  shows "S_b_n (boxmodel_loop S_a T_a Q_g z_b (Suc i)) ! i =
           Some (bm_S_b (basalmelting (plume_S (boxmodel_loop S_a T_a Q_g z_b i))
             (plume_T (boxmodel_loop S_a T_a Q_g z_b i)) z_b))"
    and "T_b_n (boxmodel_loop S_a T_a Q_g z_b (Suc i)) ! i =
           Some (bm_T_b (basalmelting (plume_S (boxmodel_loop S_a T_a Q_g z_b i))
             (plume_T (boxmodel_loop S_a T_a Q_g z_b i)) z_b))"
    and "v_b_n (boxmodel_loop S_a T_a Q_g z_b (Suc i)) ! i =
           Some (bm_v_b (basalmelting (plume_S (boxmodel_loop S_a T_a Q_g z_b i))
             (plume_T (boxmodel_loop S_a T_a Q_g z_b i)) z_b) / s_yr)"
  using assms
  by (simp_all add: boxmodel_loop_Suc boxmodel_body_melt boxmodel_loop_lengths inline_v_b)

lemma sens_loop_melt:
  shows "sv_S_b (sens_loop S_a T_a Q_g z_b (Suc i)) =
           Some (bm_S_b (basalmelting (sv_S (sens_loop S_a T_a Q_g z_b i))
             (sv_T (sens_loop S_a T_a Q_g z_b i)) z_b))"
    and "sv_T_b (sens_loop S_a T_a Q_g z_b (Suc i)) =
           Some (bm_T_b (basalmelting (sv_S (sens_loop S_a T_a Q_g z_b i))
             (sv_T (sens_loop S_a T_a Q_g z_b i)) z_b))"
    and "sv_v_b (sens_loop S_a T_a Q_g z_b (Suc i)) =
           Some (bm_v_b (basalmelting (sv_S (sens_loop S_a T_a Q_g z_b i))
             (sv_T (sens_loop S_a T_a Q_g z_b i)) z_b) / s_yr)"
  by (simp_all add: sens_loop_Suc sens_body_melt inline_v_b)

lemma boxmodel_entry:
  assumes "i < N"
  shows "box_v_b (boxmodel S_a T_a Q_g z_b) ! i =
           map_option (\<lambda>v. v * s_yr) (v_b_n (boxmodel_loop S_a T_a Q_g z_b (Suc i)) ! i)"
    and "box_S_b (boxmodel S_a T_a Q_g z_b) ! i =
           S_b_n (boxmodel_loop S_a T_a Q_g z_b (Suc i)) ! i"
    and "box_T_b (boxmodel S_a T_a Q_g z_b) ! i =
           T_b_n (boxmodel_loop S_a T_a Q_g z_b (Suc i)) ! i"
proof -
  have "box_entries (boxmodel_loop S_a T_a Q_g z_b N) i =
      box_entries (boxmodel_loop S_a T_a Q_g z_b (Suc i)) i"
    using assms by (rule box_entries_kept)
  then have e: "v_b_n (boxmodel_loop S_a T_a Q_g z_b N) ! i =
        v_b_n (boxmodel_loop S_a T_a Q_g z_b (Suc i)) ! i"
      "S_b_n (boxmodel_loop S_a T_a Q_g z_b N) ! i =
        S_b_n (boxmodel_loop S_a T_a Q_g z_b (Suc i)) ! i"
      "T_b_n (boxmodel_loop S_a T_a Q_g z_b N) ! i =
        T_b_n (boxmodel_loop S_a T_a Q_g z_b (Suc i)) ! i"
    by (simp_all add: box_entries_def)
  show "box_v_b (boxmodel S_a T_a Q_g z_b) ! i =
      map_option (\<lambda>v. v * s_yr) (v_b_n (boxmodel_loop S_a T_a Q_g z_b (Suc i)) ! i)"
    using assms by (simp add: boxmodel_def Let_def boxmodel_loop_lengths e(1))
  show "box_S_b (boxmodel S_a T_a Q_g z_b) ! i =
      S_b_n (boxmodel_loop S_a T_a Q_g z_b (Suc i)) ! i"
    by (simp add: boxmodel_def Let_def e(2))
  show "box_T_b (boxmodel S_a T_a Q_g z_b) ! i =
      T_b_n (boxmodel_loop S_a T_a Q_g z_b (Suc i)) ! i"
    by (simp add: boxmodel_def Let_def e(3))
qed

text \<open>
  Claim C9. The melt velocity that the loops of \<open>boxmodel\<close> and \<open>sens_study\<close> compute
  inline, \<open>(gamma_S * (S - S_b)) / S_b\<close>, is the \<open>v_b\<close> of \<open>basalmelting\<close> divided by
  \<^const>\<open>s_yr\<close>, for the plume state \<open>(S, T)\<close> before the update of that iteration.
  So entry \<open>i\<close> of the array \<open>v_b\<close> that \<open>boxmodel\<close> returns, and the \<open>v_b\<close> that
  \<open>sens_study\<close> returns, are the \<open>v_b\<close> of \<open>basalmelting\<close> at the plume state before the
  update of iteration \<open>i\<close>, and of the last iteration.
\<close>

theorem inline_melt_velocity:
  "(gamma_S * (S - bm_S_b (basalmelting S T z_b))) / bm_S_b (basalmelting S T z_b) =
     bm_v_b (basalmelting S T z_b) / s_yr
   \<and> (\<forall>i<N.
        v_b_n (boxmodel_loop S_a T_a Q_g z_b (Suc i)) ! i =
          Some (bm_v_b (basalmelting (plume_S (boxmodel_loop S_a T_a Q_g z_b i))
            (plume_T (boxmodel_loop S_a T_a Q_g z_b i)) z_b) / s_yr)
        \<and> box_v_b (boxmodel S_a T_a Q_g z_b) ! i =
          Some (bm_v_b (basalmelting (plume_S (boxmodel_loop S_a T_a Q_g z_b i))
            (plume_T (boxmodel_loop S_a T_a Q_g z_b i)) z_b)))
   \<and> (\<forall>i. sv_v_b (sens_loop S_a T_a Q_g z_b (Suc i)) =
          Some (bm_v_b (basalmelting (sv_S (sens_loop S_a T_a Q_g z_b i))
            (sv_T (sens_loop S_a T_a Q_g z_b i)) z_b) / s_yr))
   \<and> (\<exists>r. sens_study S_a T_a Q_g z_b = Inr r
          \<and> ss_v_b r =
            bm_v_b (basalmelting (sv_S (sens_loop S_a T_a Q_g z_b (N - 1)))
              (sv_T (sens_loop S_a T_a Q_g z_b (N - 1))) z_b))"
proof (intro conjI allI impI)
  show "(gamma_S * (S - bm_S_b (basalmelting S T z_b))) / bm_S_b (basalmelting S T z_b) =
      bm_v_b (basalmelting S T z_b) / s_yr"
    by (rule inline_v_b)
next
  fix i
  assume "i < N"
  then show "v_b_n (boxmodel_loop S_a T_a Q_g z_b (Suc i)) ! i =
      Some (bm_v_b (basalmelting (plume_S (boxmodel_loop S_a T_a Q_g z_b i))
        (plume_T (boxmodel_loop S_a T_a Q_g z_b i)) z_b) / s_yr)"
    by (rule boxmodel_loop_melt)
next
  fix i
  assume i: "i < N"
  have "s_yr \<noteq> 0" by (simp add: s_yr_def)
  then show "box_v_b (boxmodel S_a T_a Q_g z_b) ! i =
      Some (bm_v_b (basalmelting (plume_S (boxmodel_loop S_a T_a Q_g z_b i))
        (plume_T (boxmodel_loop S_a T_a Q_g z_b i)) z_b))"
    by (simp add: boxmodel_entry(1) [OF i] boxmodel_loop_melt(3) [OF i])
next
  fix i
  show "sv_v_b (sens_loop S_a T_a Q_g z_b (Suc i)) =
      Some (bm_v_b (basalmelting (sv_S (sens_loop S_a T_a Q_g z_b i))
        (sv_T (sens_loop S_a T_a Q_g z_b i)) z_b) / s_yr)"
    by (rule sens_loop_melt)
next
  obtain r where r: "sens_study S_a T_a Q_g z_b = Inr r"
    "ss_v_b r = the (sv_v_b (sens_loop S_a T_a Q_g z_b N)) * s_yr"
    using sens_study_returns by blast
  obtain m where m: "N = Suc m"
    using N_pos by (cases N) simp_all
  have "s_yr \<noteq> 0" by (simp add: s_yr_def)
  then have "ss_v_b r =
      bm_v_b (basalmelting (sv_S (sens_loop S_a T_a Q_g z_b (N - 1)))
        (sv_T (sens_loop S_a T_a Q_g z_b (N - 1))) z_b)"
    unfolding r(2) by (simp add: m sens_loop_melt(3))
  with r(1) show "\<exists>r. sens_study S_a T_a Q_g z_b = Inr r
      \<and> ss_v_b r =
        bm_v_b (basalmelting (sv_S (sens_loop S_a T_a Q_g z_b (N - 1)))
          (sv_T (sens_loop S_a T_a Q_g z_b (N - 1))) z_b)"
    by blast
qed

theorem inline_melt_velocity_witness:
  "(0::nat) < N
   \<and> v_b_n (boxmodel_loop 33 (- 1) 70 (- 300) (Suc 0)) ! 0 =
       Some (bm_v_b (basalmelting (plume_S (boxmodel_loop 33 (- 1) 70 (- 300) 0))
         (plume_T (boxmodel_loop 33 (- 1) 70 (- 300) 0)) (- 300)) / s_yr)
   \<and> box_v_b (boxmodel 33 (- 1) 70 (- 300)) ! 0 =
       Some (bm_v_b (basalmelting (plume_S (boxmodel_loop 33 (- 1) 70 (- 300) 0))
         (plume_T (boxmodel_loop 33 (- 1) 70 (- 300) 0)) (- 300)))"
proof -
  have n: "(0::nat) < N" by (simp add: N_def)
  with inline_melt_velocity [where S = 30 and T = "- 3 / 2" and z_b = "- 300" and S_a = 33 and T_a = "- 1"
      and Q_g = 70] show ?thesis
    by blast
qed

text \<open>
  Claim C10. Both \<open>boxmodel\<close> and \<open>sens_study\<close> start from the plume salinity 30 and
  the plume temperature \<open>freeze 30 z_b\<close>, whatever the ambient inputs, so what the call
  of \<open>basalmelting\<close> in the first iteration gives (the boundary salinity and temperature
  and the melt velocity recorded at index 0) depends on \<open>z_b\<close> only.
\<close>

theorem initial_plume_state:
  "plume_S (boxmodel_loop S_a T_a Q_g z_b 0) = 30
   \<and> plume_T (boxmodel_loop S_a T_a Q_g z_b 0) = freeze 30 z_b
   \<and> sv_S (sens_loop S_a T_a Q_g z_b 0) = 30
   \<and> sv_T (sens_loop S_a T_a Q_g z_b 0) = freeze 30 z_b
   \<and> box_S_b (boxmodel S_a T_a Q_g z_b) ! 0 =
       Some (bm_S_b (basalmelting 30 (freeze 30 z_b) z_b))
   \<and> box_T_b (boxmodel S_a T_a Q_g z_b) ! 0 =
       Some (bm_T_b (basalmelting 30 (freeze 30 z_b) z_b))
   \<and> box_v_b (boxmodel S_a T_a Q_g z_b) ! 0 =
       Some (bm_v_b (basalmelting 30 (freeze 30 z_b) z_b))
   \<and> sv_S_b (sens_loop S_a T_a Q_g z_b (Suc 0)) =
       Some (bm_S_b (basalmelting 30 (freeze 30 z_b) z_b))
   \<and> sv_T_b (sens_loop S_a T_a Q_g z_b (Suc 0)) =
       Some (bm_T_b (basalmelting 30 (freeze 30 z_b) z_b))
   \<and> sv_v_b (sens_loop S_a T_a Q_g z_b (Suc 0)) =
       Some (bm_v_b (basalmelting 30 (freeze 30 z_b) z_b) / s_yr)"
proof -
  have b0: "plume_S (boxmodel_loop S_a T_a Q_g z_b 0) = 30"
    "plume_T (boxmodel_loop S_a T_a Q_g z_b 0) = freeze 30 z_b"
    by (simp_all add: boxmodel_loop_0 boxmodel_init_def Let_def)
  have s0: "sv_S (sens_loop S_a T_a Q_g z_b 0) = 30"
    "sv_T (sens_loop S_a T_a Q_g z_b 0) = freeze 30 z_b"
    by (simp_all add: sens_loop_0 sens_init_def Let_def)
  have "s_yr \<noteq> 0" by (simp add: s_yr_def)
  then have b1: "box_S_b (boxmodel S_a T_a Q_g z_b) ! 0 =
        Some (bm_S_b (basalmelting 30 (freeze 30 z_b) z_b))"
      "box_T_b (boxmodel S_a T_a Q_g z_b) ! 0 =
        Some (bm_T_b (basalmelting 30 (freeze 30 z_b) z_b))"
      "box_v_b (boxmodel S_a T_a Q_g z_b) ! 0 =
        Some (bm_v_b (basalmelting 30 (freeze 30 z_b) z_b))"
    by (simp_all add: boxmodel_entry [OF N_pos] boxmodel_loop_melt [OF N_pos] b0)
  have s1: "sv_S_b (sens_loop S_a T_a Q_g z_b (Suc 0)) =
        Some (bm_S_b (basalmelting 30 (freeze 30 z_b) z_b))"
      "sv_T_b (sens_loop S_a T_a Q_g z_b (Suc 0)) =
        Some (bm_T_b (basalmelting 30 (freeze 30 z_b) z_b))"
      "sv_v_b (sens_loop S_a T_a Q_g z_b (Suc 0)) =
        Some (bm_v_b (basalmelting 30 (freeze 30 z_b) z_b) / s_yr)"
    by (simp_all add: sens_loop_melt s0)
  from b0 s0 b1 s1 show ?thesis by simp
qed

section \<open>The sweep over two parameters\<close>

lemma getitem_key:
  "key \<in> set result_keys \<Longrightarrow> \<exists>v. getitem r key = Inr v"
  by (auto simp add: result_keys_def getitem_def)

lemma sens_quantity_key:
  assumes "Quantity \<in> set result_keys"
  shows "\<exists>v. sens_quantity salt temp Q_g z_b Quantity = Inr v"
proof -
  obtain r where "sens_study salt temp Q_g z_b = Inr r"
    using sens_study_returns by blast
  with getitem_key [OF assms] show ?thesis
    by (simp add: sens_quantity_def)
qed

lemma masked_entry_key:
  assumes "Quantity \<in> set result_keys"
  shows "\<exists>e. masked_entry S_bot S_top T_bot T_top Q_g z_b Quantity X i k = Inr e"
proof -
  obtain v where "sens_quantity (S_bot + real i * (S_top - S_bot) / real_of_int X)
      (T_bot + real k * (T_top - T_bot) / real_of_int X) Q_g z_b Quantity = Inr v"
    using sens_quantity_key [OF assms] by blast
  then show ?thesis
    by (simp add: masked_entry_def Let_def)
qed

lemma variation_inner_Cons:
  "variation_inner S_bot S_top T_bot T_top Q_g z_b Quantity X i (k # ks) colormap =
    (case masked_entry S_bot S_top T_bot T_top Q_g z_b Quantity X i k of
       Inl e \<Rightarrow> Inl e
     | Inr v \<Rightarrow>
         variation_inner S_bot S_top T_bot T_top Q_g z_b Quantity X i ks
           (colormap[i := (colormap ! i)[k := v]]))"
  by (simp add: masked_entry_def Let_def not_less split: sum.splits)

lemma variation_inner_returns:
  assumes "\<forall>k \<in> set ks. \<exists>e. masked_entry S_bot S_top T_bot T_top Q_g z_b Quantity X i k = Inr e"
  shows "\<exists>cm'. variation_inner S_bot S_top T_bot T_top Q_g z_b Quantity X i ks cm = Inr cm'"
  using assms
proof (induction ks arbitrary: cm)
  case Nil
  show ?case by simp
next
  case (Cons k ks)
  then obtain e where "masked_entry S_bot S_top T_bot T_top Q_g z_b Quantity X i k = Inr e"
    by auto
  with Cons show ?case
    by (simp add: variation_inner_Cons del: variation_inner.simps)
qed

lemma variation_inner_result:
  assumes "variation_inner S_bot S_top T_bot T_top Q_g z_b Quantity X i ks cm = Inr cm'"
    and "i < length cm" and "\<forall>k \<in> set ks. k < length (cm ! i)" and "distinct ks"
  shows "length cm' = length cm
    \<and> (\<forall>j. j \<noteq> i \<longrightarrow> cm' ! j = cm ! j)
    \<and> length (cm' ! i) = length (cm ! i)
    \<and> (\<forall>k. k \<notin> set ks \<longrightarrow> cm' ! i ! k = cm ! i ! k)
    \<and> (\<forall>k \<in> set ks.
          masked_entry S_bot S_top T_bot T_top Q_g z_b Quantity X i k = Inr (cm' ! i ! k))"
  using assms
proof (induction ks arbitrary: cm)
  case Nil
  then show ?case by simp
next
  case (Cons k ks)
  from Cons.prems(1) obtain v where
    v: "masked_entry S_bot S_top T_bot T_top Q_g z_b Quantity X i k = Inr v"
    and rest: "variation_inner S_bot S_top T_bot T_top Q_g z_b Quantity X i ks
        (cm[i := (cm ! i)[k := v]]) = Inr cm'"
    by (auto simp add: variation_inner_Cons simp del: variation_inner.simps split: sum.splits)
  let ?cm = "cm[i := (cm ! i)[k := v]]"
  have i: "i < length ?cm"
    using Cons.prems(2) by simp
  have row: "?cm ! i = (cm ! i)[k := v]"
    using Cons.prems(2) by simp
  have ks: "\<forall>k \<in> set ks. k < length (?cm ! i)"
    using Cons.prems(3) by (simp add: row)
  have d: "distinct ks" and k: "k \<notin> set ks"
    using Cons.prems(4) by simp_all
  note IH = Cons.IH [OF rest i ks d]
  have kl: "k < length (cm ! i)"
    using Cons.prems(3) by simp
  from IH k have "cm' ! i ! k = ?cm ! i ! k"
    by blast
  then have head: "cm' ! i ! k = v"
    using kl by (simp add: row)
  show ?case
  proof (intro conjI allI impI ballI)
    show "length cm' = length cm"
      using IH by simp
    show "length (cm' ! i) = length (cm ! i)"
      using IH by (simp add: row)
  next
    fix j assume "j \<noteq> i"
    with IH have "cm' ! j = ?cm ! j" by blast
    with \<open>j \<noteq> i\<close> show "cm' ! j = cm ! j" by simp
  next
    fix k' assume "k' \<notin> set (k # ks)"
    then have "k' \<notin> set ks" "k' \<noteq> k" by simp_all
    with IH have "cm' ! i ! k' = ?cm ! i ! k'" by blast
    with \<open>k' \<noteq> k\<close> show "cm' ! i ! k' = cm ! i ! k'" by (simp add: row)
  next
    fix k' assume "k' \<in> set (k # ks)"
    then consider "k' = k" | "k' \<in> set ks" by auto
    then show "masked_entry S_bot S_top T_bot T_top Q_g z_b Quantity X i k' = Inr (cm' ! i ! k')"
    proof cases
      case 1
      then show ?thesis by (simp add: v head)
    next
      case 2
      with IH show ?thesis by blast
    qed
  qed
qed

lemma variation_outer_returns:
  assumes "\<forall>i \<in> set js. \<forall>k < nat X.
      \<exists>e. masked_entry S_bot S_top T_bot T_top Q_g z_b Quantity X i k = Inr e"
  shows "\<exists>cm'. variation_outer S_bot S_top T_bot T_top Q_g z_b Quantity X js cm = Inr cm'"
  using assms
proof (induction js arbitrary: cm)
  case Nil
  show ?case by simp
next
  case (Cons i js)
  have "\<forall>k \<in> set [0..<nat X].
      \<exists>e. masked_entry S_bot S_top T_bot T_top Q_g z_b Quantity X i k = Inr e"
    using Cons.prems by simp
  then obtain cm1 where
    "variation_inner S_bot S_top T_bot T_top Q_g z_b Quantity X i [0..<nat X] cm = Inr cm1"
    using variation_inner_returns by blast
  moreover have "\<exists>cm'. variation_outer S_bot S_top T_bot T_top Q_g z_b Quantity X js cm1 = Inr cm'"
    using Cons.prems by (intro Cons.IH) simp
  ultimately show ?case by auto
qed

lemma variation_outer_result:
  assumes "variation_outer S_bot S_top T_bot T_top Q_g z_b Quantity X js cm = Inr cm'"
    and "\<forall>i \<in> set js. i < length cm" and "\<forall>j < length cm. length (cm ! j) = nat X"
    and "distinct js"
  shows "length cm' = length cm
    \<and> (\<forall>j < length cm. length (cm' ! j) = nat X)
    \<and> (\<forall>j. j \<notin> set js \<longrightarrow> cm' ! j = cm ! j)
    \<and> (\<forall>i \<in> set js. \<forall>k < nat X.
          masked_entry S_bot S_top T_bot T_top Q_g z_b Quantity X i k = Inr (cm' ! i ! k))"
  using assms
proof (induction js arbitrary: cm)
  case Nil
  then show ?case by simp
next
  case (Cons i js)
  from Cons.prems(1) obtain cm1 where
    inner: "variation_inner S_bot S_top T_bot T_top Q_g z_b Quantity X i [0..<nat X] cm = Inr cm1"
    and outer: "variation_outer S_bot S_top T_bot T_top Q_g z_b Quantity X js cm1 = Inr cm'"
    by (auto split: sum.splits)
  have i: "i < length cm"
    using Cons.prems(2) by simp
  have ks: "\<forall>k \<in> set [0..<nat X]. k < length (cm ! i)"
    using Cons.prems(3) i by simp
  note R = variation_inner_result [OF inner i ks distinct_upt]
  have len1: "length cm1 = length cm"
    using R by simp
  have rows1: "\<forall>j < length cm1. length (cm1 ! j) = nat X"
  proof (intro allI impI)
    fix j assume "j < length cm1"
    then have j: "j < length cm" by (simp add: len1)
    show "length (cm1 ! j) = nat X"
    proof (cases "j = i")
      case True
      with R Cons.prems(3) i show ?thesis by simp
    next
      case False
      with R have "cm1 ! j = cm ! j" by blast
      with Cons.prems(3) j show ?thesis by simp
    qed
  qed
  have js: "\<forall>i \<in> set js. i < length cm1"
    using Cons.prems(2) by (simp add: len1)
  have d: "distinct js" and inotin: "i \<notin> set js"
    using Cons.prems(4) by simp_all
  note IH = Cons.IH [OF outer js rows1 d]
  from IH inotin have rowi: "cm' ! i = cm1 ! i" by blast
  show ?case
  proof (intro conjI allI impI ballI)
    show "length cm' = length cm"
      using IH by (simp add: len1)
  next
    fix j assume "j < length cm"
    with IH show "length (cm' ! j) = nat X" by (simp add: len1)
  next
    fix j assume "j \<notin> set (i # js)"
    then have "j \<notin> set js" "j \<noteq> i" by simp_all
    with IH have "cm' ! j = cm1 ! j" by blast
    moreover from R \<open>j \<noteq> i\<close> have "cm1 ! j = cm ! j" by blast
    ultimately show "cm' ! j = cm ! j" by simp
  next
    fix i' k assume i': "i' \<in> set (i # js)" and k: "k < nat X"
    from i' consider "i' = i" | "i' \<in> set js" by auto
    then show "masked_entry S_bot S_top T_bot T_top Q_g z_b Quantity X i' k = Inr (cm' ! i' ! k)"
    proof cases
      case 1
      from R k have "masked_entry S_bot S_top T_bot T_top Q_g z_b Quantity X i k =
          Inr (cm1 ! i ! k)"
        by simp
      with 1 show ?thesis by (simp add: rowi)
    next
      case 2
      with IH k show ?thesis by blast
    qed
  qed
qed

lemma variation_result:
  assumes "variation S_bot S_top T_bot T_top Q_g z_b Quantity X = Inr out"
    and "i < nat X" and "k < nat X"
  shows "length out = nat X \<and> length (out ! k) = nat X
    \<and> masked_entry S_bot S_top T_bot T_top Q_g z_b Quantity X i k = Inr (out ! k ! i)"
proof -
  let ?cm = "replicate (nat X) (replicate (nat X) (Some (0::real)))"
  from assms(1) obtain cm' where
    outer: "variation_outer S_bot S_top T_bot T_top Q_g z_b Quantity X [0..<nat X] ?cm = Inr cm'"
    and out: "out = transpose cm'"
    by (auto simp add: variation_def split: if_splits sum.splits)
  have "\<forall>i \<in> set [0..<nat X]. i < length ?cm" by simp
  moreover have "\<forall>j < length ?cm. length (?cm ! j) = nat X" by simp
  ultimately have R: "length cm' = length ?cm
    \<and> (\<forall>j < length ?cm. length (cm' ! j) = nat X)
    \<and> (\<forall>j. j \<notin> set [0..<nat X] \<longrightarrow> cm' ! j = ?cm ! j)
    \<and> (\<forall>i \<in> set [0..<nat X]. \<forall>k < nat X.
          masked_entry S_bot S_top T_bot T_top Q_g z_b Quantity X i k = Inr (cm' ! i ! k))"
    using variation_outer_result [OF outer] by simp
  then have len: "length cm' = nat X" and rows: "\<And>j. j < length cm' \<Longrightarrow> length (cm' ! j) = nat X"
    by simp_all
  have ne: "cm' = [] \<Longrightarrow> nat X = 0"
    using len by simp
  have t: "transpose cm' = map (\<lambda>i. map (\<lambda>j. cm' ! j ! i) [0..<length cm']) [0..<nat X]"
    using ne rows by (rule transpose_rectangle)
  have "out ! k ! i = cm' ! i ! k"
    using assms(2,3) by (simp add: out t len)
  moreover have "masked_entry S_bot S_top T_bot T_top Q_g z_b Quantity X i k = Inr (cm' ! i ! k)"
    using R assms(2,3) by simp
  moreover have "length out = nat X" "length (out ! k) = nat X"
    using assms(3) by (simp_all add: out t len)
  ultimately show ?thesis by simp
qed

lemma variation_returns:
  assumes "Quantity \<in> set result_keys" and "0 \<le> X"
  shows "\<exists>out. variation S_bot S_top T_bot T_top Q_g z_b Quantity X = Inr out"
proof -
  have "\<forall>i \<in> set [0..<nat X]. \<forall>k < nat X.
      \<exists>e. masked_entry S_bot S_top T_bot T_top Q_g z_b Quantity X i k = Inr e"
    using masked_entry_key [OF assms(1)] by blast
  then obtain cm' where "variation_outer S_bot S_top T_bot T_top Q_g z_b Quantity X [0..<nat X]
      (replicate (nat X) (replicate (nat X) (Some 0))) = Inr cm'"
    using variation_outer_returns by blast
  with assms(2) show ?thesis
    by (simp add: variation_def)
qed

text \<open>
  Claim C5. For a key \<open>Quantity\<close> of the result of \<open>sens_study\<close> and every grid point
  \<open>(i, k)\<close> with \<open>i\<close> and \<open>k\<close> below \<open>X\<close>, \<open>variation\<close> returns an \<open>X\<close>-by-\<open>X\<close> array
  whose entry for the grid point (row \<open>k\<close>, column \<open>i\<close> of the returned, transposed
  array) is the no-data value if the sampled temperature
  \<open>T_bot + k * (T_top - T_bot) / X\<close> is below the freezing temperature
  \<open>y1 * salt + y2 + y3 * z_b\<close> of the sampled salinity
  \<open>salt = S_bot + i * (S_top - S_bot) / X\<close>, and is
  \<^verbatim>\<open>sens_study(salt, temp, Q_g, z_b)[Quantity]\<close> otherwise.
\<close>

theorem variation_masks_below_freezing:
  assumes "Quantity \<in> set result_keys" and "i < nat X" and "k < nat X"
  shows "\<exists>out v. variation S_bot S_top T_bot T_top Q_g z_b Quantity X = Inr out
    \<and> length out = nat X \<and> length (out ! k) = nat X
    \<and> sens_quantity (S_bot + real i * (S_top - S_bot) / real_of_int X)
         (T_bot + real k * (T_top - T_bot) / real_of_int X) Q_g z_b Quantity = Inr v
    \<and> out ! k ! i =
        (if T_bot + real k * (T_top - T_bot) / real_of_int X
              < y1 * (S_bot + real i * (S_top - S_bot) / real_of_int X) + y2 + y3 * z_b
         then None else Some v)"
proof -
  have "0 \<le> X" using assms(2) by simp
  then obtain out where out: "variation S_bot S_top T_bot T_top Q_g z_b Quantity X = Inr out"
    using variation_returns [OF assms(1)] by blast
  obtain v where v: "sens_quantity (S_bot + real i * (S_top - S_bot) / real_of_int X)
      (T_bot + real k * (T_top - T_bot) / real_of_int X) Q_g z_b Quantity = Inr v"
    using sens_quantity_key [OF assms(1)] by blast
  from variation_result [OF out assms(2,3)] v
  have "length out = nat X \<and> length (out ! k) = nat X
    \<and> out ! k ! i =
        (if T_bot + real k * (T_top - T_bot) / real_of_int X
              < y1 * (S_bot + real i * (S_top - S_bot) / real_of_int X) + y2 + y3 * z_b
         then None else Some v)"
    by (auto simp add: masked_entry_def Let_def split: if_splits)
  with out v show ?thesis by blast
qed

theorem variation_masks_below_freezing_witness:
  "''v_b'' \<in> set result_keys \<and> (0::nat) < nat 2 \<and> (1::nat) < nat 2
   \<and> (\<exists>out. variation 30 35 (- 2) 2 70 (- 300) ''v_b'' 2 = Inr out \<and> out ! 0 ! 0 = None)
   \<and> (\<exists>out v. variation 30 35 (- 2) 2 70 (- 300) ''v_b'' 2 = Inr out
          \<and> sens_quantity (65 / 2) 0 70 (- 300) ''v_b'' = Inr v \<and> out ! 1 ! 1 = Some v)"
proof -
  have q: "''v_b'' \<in> set result_keys"
    by (simp add: result_keys_def)
  have n0: "(0::nat) < nat 2" and n1: "(1::nat) < nat 2"
    by simp_all
  have below: "(- 2::real) < y1 * 30 + y2 + y3 * (- 300)"
    by (simp add: y1_def y2_def y3_def)
  have above: "\<not> (0::real) < y1 * (65 / 2) + y2 + y3 * (- 300)"
    by (simp add: y1_def y2_def y3_def)
  from variation_masks_below_freezing [OF q n0 n0, of 30 35 "- 2" 2 70 "- 300"] below
  have "\<exists>out. variation 30 35 (- 2) 2 70 (- 300) ''v_b'' 2 = Inr out \<and> out ! 0 ! 0 = None"
    by auto
  moreover
  from variation_masks_below_freezing [OF q n1 n1, of 30 35 "- 2" 2 70 "- 300"] above
  have "\<exists>out v. variation 30 35 (- 2) 2 70 (- 300) ''v_b'' 2 = Inr out
      \<and> sens_quantity (65 / 2) 0 70 (- 300) ''v_b'' = Inr v \<and> out ! 1 ! 1 = Some v"
    by auto
  ultimately show ?thesis
    using q n0 n1 by blast
qed

section \<open>Special values and exceptions\<close>

lemma pow2_raises:
  assumes "pow2 k x = Inl e"
  shows "e = OverflowError \<and> k = Py \<and> (\<exists>r. x = Fin r \<and> overflow_threshold \<le> r ^ 2)"
  using assms by (cases k; cases x) (auto split: if_splits)

lemma freeze_fp_Fin: "freeze_fp (Fin S) (Fin z_b) = Fin (freeze S z_b)"
  by (simp add: freeze_fp_def freeze_def)

lemma basalmelting_fp_raises:
  assumes "basalmelting_fp k S T z_b = Inl e"
  shows "e = OverflowError \<and> k = Py"
  using assms pow2_raises
  by (fastforce simp add: basalmelting_fp_def Let_def split: sum.splits)

lemma fp_coeff_b:
  "fadd (fmul (Fin gamma_T) (fsub (fadd (Fin y2) (fmul (Fin y3) (Fin z_b))) (Fin T)))
     (fmul (Fin (gamma_S / c_p))
       (fsub (fmul (Fin c_i)
           (fadd (fsub (fsub (fmul (Fin y1) (Fin S)) (Fin y2)) (fmul (Fin y3) (Fin z_b)))
             (Fin T_i)))
         (Fin L))) = Fin (coeff_b S T z_b)"
  by (simp add: fsub_def coeff_b_def)

lemma fp_coeff_c:
  "fmul (fdiv (fmul (Fin gamma_S) (Fin S)) (Fin c_p))
     (fadd (fmul (Fin c_i) (fsub (fmul (Fin y3) (Fin z_b)) (Fin T_i))) (Fin L)) =
   Fin (coeff_c S z_b)"
proof -
  have "c_p \<noteq> 0" by (simp add: c_p_def)
  then show ?thesis
    by (simp add: fsub_def coeff_c_def)
qed

lemma basalmelting_fp_pow2:
  "basalmelting_fp k (Fin S) (Fin T) (Fin z_b) =
    (case pow2 k (Fin (coeff_b S T z_b)) of
       Inl e \<Rightarrow> Inl e
     | Inr b2 \<Rightarrow>
         (let S_b = fdiv (fneg (fadd (Fin (coeff_b S T z_b))
                      (fsqrt (fsub b2 (Fin (4 * coeff_a * coeff_c S z_b))))))
                      (Fin (2 * coeff_a));
              T_b = fadd (fadd (fmul (Fin y1) S_b) (Fin y2)) (Fin (y3 * z_b));
              v_b = fdiv (fmul (Fin gamma_S) (fsub (Fin S) S_b)) S_b
          in Inr \<lparr>fp_S_b = S_b, fp_T_b = T_b, fp_v_b = fmul v_b (Fin s_yr)\<rparr>))"
  unfolding basalmelting_fp_def fp_coeff_b fp_coeff_c coeff_a_def [symmetric]
  by (simp add: Let_def cong: sum.case_cong)

lemma basalmelting_fp_overflow:
  assumes "overflow_threshold \<le> (coeff_b S T z_b) ^ 2"
  shows "basalmelting_fp Py (Fin S) (Fin T) (Fin z_b) = Inl OverflowError"
  using assms by (simp add: basalmelting_fp_pow2)

lemma basalmelting_fp_Fin:
  assumes "0 \<le> discriminant S T z_b" and "(coeff_b S T z_b) ^ 2 < overflow_threshold"
  shows "basalmelting_fp k (Fin S) (Fin T) (Fin z_b) =
    Inr \<lparr>fp_S_b = Fin (bm_S_b (basalmelting S T z_b)),
         fp_T_b = Fin (bm_T_b (basalmelting S T z_b)),
         fp_v_b = fmul (fdiv (Fin (gamma_S * (S - bm_S_b (basalmelting S T z_b))))
                    (Fin (bm_S_b (basalmelting S T z_b)))) (Fin s_yr)\<rparr>"
proof -
  have a: "coeff_a \<noteq> 0"
    using coeff_a_neg by simp
  have p: "pow2 k (Fin (coeff_b S T z_b)) = Inr (Fin ((coeff_b S T z_b) ^ 2))"
    using assms(2) by (cases k) simp_all
  have d: "\<not> (coeff_b S T z_b) ^ 2 - 4 * coeff_a * coeff_c S z_b < 0"
    using assms(1) by (simp add: discriminant_def)
  show ?thesis
    using a d
    by (simp add: basalmelting_fp_pow2 p Let_def fsub_def basalmelting_S_b basalmelting_T_b
        discriminant_def)
qed

lemma basalmelting_fp_finite:
  assumes "0 \<le> discriminant S T z_b" and "(coeff_b S T z_b) ^ 2 < overflow_threshold"
    and "bm_S_b (basalmelting S T z_b) \<noteq> 0"
  shows "basalmelting_fp k (Fin S) (Fin T) (Fin z_b) =
    Inr \<lparr>fp_S_b = Fin (bm_S_b (basalmelting S T z_b)),
         fp_T_b = Fin (bm_T_b (basalmelting S T z_b)),
         fp_v_b = Fin (bm_v_b (basalmelting S T z_b))\<rparr>"
  using assms(3) by (simp add: basalmelting_fp_Fin [OF assms(1,2)] basalmelting_v_b)

lemma basalmelting_fp_nan:
  assumes "discriminant S T z_b < 0" and "(coeff_b S T z_b) ^ 2 < overflow_threshold"
  shows "basalmelting_fp k (Fin S) (Fin T) (Fin z_b) =
    Inr \<lparr>fp_S_b = NaN, fp_T_b = NaN, fp_v_b = NaN\<rparr>"
proof -
  have p: "pow2 k (Fin (coeff_b S T z_b)) = Inr (Fin ((coeff_b S T z_b) ^ 2))"
    using assms(2) by (cases k) simp_all
  have d: "(coeff_b S T z_b) ^ 2 - 4 * coeff_a * coeff_c S z_b < 0"
    using assms(1) by (simp add: discriminant_def)
  show ?thesis
    using d by (simp add: basalmelting_fp_pow2 p Let_def fsub_def)
qed

lemma large_square_overflows:
  assumes "10 ^ 160 \<le> \<bar>x :: real\<bar>"
  shows "overflow_threshold \<le> x ^ 2"
proof -
  have "overflow_threshold \<le> (10 ^ 160) ^ 2"
    by (simp add: overflow_threshold_def)
  also have "(10 ^ 160 :: real) ^ 2 \<le> \<bar>x\<bar> ^ 2"
    using assms by (intro power_mono) simp_all
  finally show ?thesis
    by simp
qed

lemma coeff_b_no_overflow:
  assumes "\<bar>S\<bar> \<le> 10 ^ 100" "\<bar>T\<bar> \<le> 10 ^ 100" "\<bar>z_b\<bar> \<le> 10 ^ 100"
  shows "(coeff_b S T z_b) ^ 2 < overflow_threshold"
proof -
  have "\<bar>coeff_b S T z_b\<bar> \<le> 10 ^ 101"
    using assms
    unfolding coeff_b_def y1_def y2_def y3_def gamma_T_def gamma_S_def St_T_def St_S_def
      u_def c_i_def c_p_def T_i_def L_def
    by (simp add: abs_le_iff add_divide_distrib diff_divide_distrib)
  then have "\<bar>coeff_b S T z_b\<bar> \<le> \<bar>10 ^ 101 :: real\<bar>"
    by simp
  then have "(coeff_b S T z_b) ^ 2 \<le> (10 ^ 101) ^ 2"
    by (simp only: abs_le_square_iff)
  also have "(10 ^ 101 :: real) ^ 2 < overflow_threshold"
    by (simp add: overflow_threshold_def)
  finally show ?thesis .
qed

lemma basalmelting_S_zero:
  assumes "coeff_b 0 T z_b \<le> 0"
  shows "discriminant 0 T z_b = (coeff_b 0 T z_b) ^ 2"
    and "bm_S_b (basalmelting 0 T z_b) = 0"
proof -
  show d: "discriminant 0 T z_b = (coeff_b 0 T z_b) ^ 2"
    by (simp add: discriminant_def coeff_c_def)
  have "sqrt (discriminant 0 T z_b) = - coeff_b 0 T z_b"
    using assms by (simp add: d)
  then show "bm_S_b (basalmelting 0 T z_b) = 0"
    by (simp add: basalmelting_S_b)
qed

lemma coeff_b_fresh_nonpos:
  assumes "- 244000 \<le> z_b" "freeze 0 z_b \<le> T"
  shows "coeff_b 0 T z_b \<le> 0"
  using assms
  unfolding coeff_b_def freeze_def Let_def y1_def y2_def y3_def gamma_T_def gamma_S_def
    St_T_def St_S_def u_def c_i_def c_p_def T_i_def L_def
  by (simp add: add_divide_distrib diff_divide_distrib)

lemma basalmelting_fp_fresh:
  assumes "coeff_b 0 T z_b \<le> 0" and "(coeff_b 0 T z_b) ^ 2 < overflow_threshold"
  shows "basalmelting_fp k (Fin 0) (Fin T) (Fin z_b) =
    Inr \<lparr>fp_S_b = Fin 0, fp_T_b = Fin (freeze 0 z_b), fp_v_b = NaN\<rparr>"
proof -
  note z = basalmelting_S_zero [OF assms(1)]
  have d: "0 \<le> discriminant 0 T z_b"
    by (simp add: z(1))
  show ?thesis
    by (simp add: basalmelting_fp_Fin [OF d assms(2)] z(2) basalmelting_T_b freeze_def)
qed

lemma basalmelting_fp_overflow_hot:
  "basalmelting_fp Py (Fin 30) (Fin (10 ^ 200)) (Fin (- 300)) = Inl OverflowError"
proof -
  have "10 ^ 160 \<le> \<bar>coeff_b 30 (10 ^ 200) (- 300)\<bar>"
    by (simp add: coeff_b_def y1_def y2_def y3_def gamma_T_def gamma_S_def St_T_def St_S_def
        u_def c_i_def c_p_def T_i_def L_def)
  then have "overflow_threshold \<le> (coeff_b 30 (10 ^ 200) (- 300)) ^ 2"
    by (rule large_square_overflows)
  then show ?thesis
    by (rule basalmelting_fp_overflow)
qed

text \<open>
  The claim as it stands, for every input, fails in two ways. At \<open>S = -30\<close>, \<open>T = -1.5\<close>,
  \<open>z_b = -300\<close> the radicand is negative: \<open>S_b\<close> and \<open>T_b\<close> are not-a-number, and
  \<^verbatim>\<open>T_b == freeze(S_b, z_b)\<close> compares not-a-number with not-a-number, which is false.
  At \<open>T = 10 ^ 200\<close> on Python floats \<^verbatim>\<open>b ** 2\<close> raises \<^verbatim>\<open>OverflowError\<close> and nothing
  is returned.
\<close>

theorem basalmelting_T_b_counterexample:
  "basalmelting_fp Py (Fin (- 30)) (Fin (- 3 / 2)) (Fin (- 300)) =
     Inr \<lparr>fp_S_b = NaN, fp_T_b = NaN, fp_v_b = NaN\<rparr>
   \<and> \<not> feq NaN (freeze_fp NaN (Fin (- 300)))
   \<and> basalmelting_fp Py (Fin 30) (Fin (10 ^ 200)) (Fin (- 300)) = Inl OverflowError"
proof -
  have d: "discriminant (- 30) (- 3 / 2) (- 300) < 0"
    by (simp add: discriminant_def coeff_a_def coeff_b_def coeff_c_def y1_def y2_def y3_def
        gamma_T_def gamma_S_def St_T_def St_S_def u_def c_i_def c_p_def T_i_def L_def
        power2_eq_square)
  have b: "(coeff_b (- 30) (- 3 / 2) (- 300)) ^ 2 < overflow_threshold"
    by (rule coeff_b_no_overflow) simp_all
  show ?thesis
    using basalmelting_fp_nan [OF d b, of Py] basalmelting_fp_overflow_hot by simp
qed

lemma basalmelting_fp_T_b_eq:
  assumes "\<bar>S\<bar> \<le> 10 ^ 100" "\<bar>T\<bar> \<le> 10 ^ 100" "\<bar>z_b\<bar> \<le> 10 ^ 100"
    and "0 \<le> discriminant S T z_b"
  shows "\<exists>m. basalmelting_fp k (Fin S) (Fin T) (Fin z_b) = Inr m
    \<and> feq (fp_T_b m) (freeze_fp (fp_S_b m) (Fin z_b))"
proof -
  note b = coeff_b_no_overflow [OF assms(1-3)]
  show ?thesis
    by (simp add: basalmelting_fp_Fin [OF assms(4) b] freeze_fp_Fin basalmelting_T_b freeze_def)
qed

lemma discriminant_nonneg:
  assumes "0 \<le> S" "- 244000 \<le> z_b"
  shows "0 \<le> discriminant S T z_b"
proof -
  have "0 \<le> c_i * (y3 * z_b - T_i) + L"
    using assms(2) by (simp add: c_i_def y3_def T_i_def L_def)
  moreover have "0 \<le> (gamma_S * S) / c_p"
    using assms(1) by (simp add: gamma_S_def St_S_def u_def c_p_def)
  ultimately have "0 \<le> coeff_c S z_b"
    unfolding coeff_c_def by (rule mult_nonneg_nonneg [rotated])
  then have "coeff_a * coeff_c S z_b \<le> 0"
    using coeff_a_neg by (simp add: mult_nonpos_nonneg)
  moreover have "0 \<le> (coeff_b S T z_b) ^ 2"
    by simp
  ultimately show ?thesis
    unfolding discriminant_def by linarith
qed

text \<open>
  Claim C2, amended. For every input with a salinity \<open>S\<close> between 0 and \<open>10 ^ 100\<close>, a
  depth \<open>z_b\<close> between -244000 and \<open>10 ^ 100\<close> and a temperature \<open>T\<close> of magnitude at
  most \<open>10 ^ 100\<close>, \<open>basalmelting\<close> returns, and the boundary temperature it returns
  equals (\<^verbatim>\<open>==\<close>) \<open>freeze\<close> applied to the boundary salinity it returns and the same
  depth. The bounds on salinity and depth make the radicand non-negative, the bounds on
  the magnitudes keep \<^verbatim>\<open>b ** 2\<close> in range.
\<close>

theorem basalmelting_T_b_eq_freeze:
  assumes "0 \<le> S" "S \<le> 10 ^ 100" "- 244000 \<le> z_b" "z_b \<le> 10 ^ 100" "\<bar>T\<bar> \<le> 10 ^ 100"
  shows "\<exists>m. basalmelting_fp k (Fin S) (Fin T) (Fin z_b) = Inr m
    \<and> feq (fp_T_b m) (freeze_fp (fp_S_b m) (Fin z_b))"
proof -
  have "\<bar>S\<bar> \<le> 10 ^ 100" "\<bar>z_b\<bar> \<le> 10 ^ 100"
    using assms(1-4) by (simp_all add: abs_le_iff)
  then show ?thesis
    using assms(5) discriminant_nonneg [OF assms(1,3)] by (intro basalmelting_fp_T_b_eq)
qed

theorem basalmelting_T_b_eq_freeze_witness:
  "(0 :: real) \<le> 30 \<and> (30 :: real) \<le> 10 ^ 100 \<and> (- 244000 :: real) \<le> - 300
   \<and> (- 300 :: real) \<le> 10 ^ 100 \<and> \<bar>- 3 / 2 :: real\<bar> \<le> 10 ^ 100
   \<and> (\<exists>m. basalmelting_fp Py (Fin 30) (Fin (- 3 / 2)) (Fin (- 300)) = Inr m
         \<and> feq (fp_T_b m) (freeze_fp (fp_S_b m) (Fin (- 300))))"
proof -
  have "\<exists>m. basalmelting_fp Py (Fin 30) (Fin (- 3 / 2)) (Fin (- 300)) = Inr m
      \<and> feq (fp_T_b m) (freeze_fp (fp_S_b m) (Fin (- 300)))"
    by (rule basalmelting_T_b_eq_freeze) simp_all
  then show ?thesis
    by simp
qed

text \<open>
  The claim fails for fresh water: at \<open>S = 0\<close>, \<open>T = 0\<close>, \<open>z_b = -300\<close> the temperature is
  above the freezing temperature, the boundary salinity is zero, and the melt velocity
  is zero divided by zero, not-a-number, which is not \<^verbatim>\<open>>= 0\<close>.
\<close>

theorem basalmelting_fresh_water_counterexample:
  "freeze 0 (- 300) \<le> 0
   \<and> basalmelting_fp Py (Fin 0) (Fin 0) (Fin (- 300)) =
       Inr \<lparr>fp_S_b = Fin 0, fp_T_b = Fin (freeze 0 (- 300)), fp_v_b = NaN\<rparr>
   \<and> \<not> fge NaN (Fin 0)"
proof -
  have f: "freeze 0 (- 300) \<le> 0"
    by (simp add: freeze_def y2_def y3_def)
  have b: "coeff_b 0 0 (- 300) \<le> 0"
    by (rule coeff_b_fresh_nonpos [OF _ f]) simp
  have o: "(coeff_b 0 0 (- 300)) ^ 2 < overflow_threshold"
    by (rule coeff_b_no_overflow) simp_all
  show ?thesis
    using f basalmelting_fp_fresh [OF b o, of Py] by simp
qed


lemma physical_no_overflow:
  assumes "0 \<le> S" "S \<le> 1000" "- 244000 \<le> z_b" "z_b \<le> 0" "- 1000 \<le> T" "T \<le> 100"
  shows "(coeff_b S T z_b) ^ 2 < overflow_threshold"
  using assms by (intro coeff_b_no_overflow) (simp_all add: abs_le_iff)

lemma freeze_lower:
  assumes "0 \<le> S" "S \<le> 1000" "- 244000 \<le> z_b"
  shows "- 1000 \<le> freeze S z_b"
  using assms unfolding freeze_def Let_def y1_def y2_def y3_def
  by (simp add: add_divide_distrib diff_divide_distrib)

text \<open>
  Claim C4, amended. For every ambient state with a salinity \<open>S\<close> between \<open>10\<^sup>-\<^sup>6\<close> and
  1000, a depth \<open>z_b\<close> between -244000 and 0 and a temperature \<open>T\<close> between the local
  freezing temperature \<open>freeze S z_b\<close> and 100, \<open>basalmelting\<close> returns three finite
  values, the melt velocity is non-negative, and the discriminant of the quadratic is
  non-negative.
\<close>

theorem basalmelting_melt_nonneg_physical:
  assumes "1 / 10 ^ 6 \<le> S" "S \<le> 1000" "- 244000 \<le> z_b" "z_b \<le> 0"
    and "freeze S z_b \<le> T" "T \<le> 100"
  shows "basalmelting_fp k (Fin S) (Fin T) (Fin z_b) =
      Inr \<lparr>fp_S_b = Fin (bm_S_b (basalmelting S T z_b)),
           fp_T_b = Fin (bm_T_b (basalmelting S T z_b)),
           fp_v_b = Fin (bm_v_b (basalmelting S T z_b))\<rparr>
    \<and> 0 \<le> bm_v_b (basalmelting S T z_b)
    \<and> 0 \<le> discriminant S T z_b"
proof -
  have S: "0 < S"
    using assms(1) by (rule less_le_trans [rotated]) simp
  have T: "- 1000 \<le> T"
    using freeze_lower [of S z_b] S assms(2,3,5) by simp
  have o: "(coeff_b S T z_b) ^ 2 < overflow_threshold"
    using S assms(2,3,4,6) T by (intro physical_no_overflow) simp_all
  note m = melt_nonneg_real [OF S assms(3,5)]
  have "bm_S_b (basalmelting S T z_b) \<noteq> 0"
    using m by simp
  with m o show ?thesis
    by (simp add: basalmelting_fp_finite)
qed

theorem basalmelting_melt_nonneg_physical_witness:
  "(1 / 10 ^ 6 :: real) \<le> 30 \<and> (30 :: real) \<le> 1000 \<and> (- 244000 :: real) \<le> - 300
   \<and> (- 300 :: real) \<le> 0 \<and> freeze 30 (- 300) \<le> - 3 / 2 \<and> (- 3 / 2 :: real) \<le> 100
   \<and> basalmelting_fp Py (Fin 30) (Fin (- 3 / 2)) (Fin (- 300)) =
       Inr \<lparr>fp_S_b = Fin (bm_S_b (basalmelting 30 (- 3 / 2) (- 300))),
            fp_T_b = Fin (bm_T_b (basalmelting 30 (- 3 / 2) (- 300))),
            fp_v_b = Fin (bm_v_b (basalmelting 30 (- 3 / 2) (- 300)))\<rparr>
   \<and> 0 \<le> bm_v_b (basalmelting 30 (- 3 / 2) (- 300))
   \<and> 0 \<le> discriminant 30 (- 3 / 2) (- 300)"
proof -
  have f: "freeze 30 (- 300) \<le> - 3 / 2"
    by (simp add: freeze_def y1_def y2_def y3_def)
  show ?thesis
    using f basalmelting_melt_nonneg_physical [of 30 "- 300" "- 3 / 2" Py] by simp
qed

lemma boxmodel_body_fp_Inl:
  "boxmodel_body_fp S_a T_a Q_g z_b i s = Inl e \<longleftrightarrow>
     basalmelting_fp (plume_kind s) (plume_S_fp s) (plume_T_fp s) z_b = Inl e"
  by (simp add: boxmodel_body_fp_def Let_def split: sum.splits)

lemma boxmodel_body_fp_kind:
  "boxmodel_body_fp S_a T_a Q_g z_b i s = Inr s' \<Longrightarrow> plume_kind s' = Np"
  by (auto simp add: boxmodel_body_fp_def Let_def split: sum.splits)

lemma boxmodel_body_fp_Np:
  assumes "plume_kind s = Np"
  shows "\<exists>s'. boxmodel_body_fp S_a T_a Q_g z_b i s = Inr s'"
proof (cases "boxmodel_body_fp S_a T_a Q_g z_b i s")
  case (Inl e)
  then have "basalmelting_fp Np (plume_S_fp s) (plume_T_fp s) z_b = Inl e"
    by (simp add: boxmodel_body_fp_Inl assms)
  then show ?thesis
    using basalmelting_fp_raises by blast
next
  case (Inr s')
  then show ?thesis by simp
qed

lemma boxmodel_loop_fp_Np:
  assumes "plume_kind s = Np"
  shows "\<exists>s'. boxmodel_loop_fp S_a T_a Q_g z_b js s = Inr s'"
  using assms
proof (induction js arbitrary: s)
  case Nil
  show ?case by simp
next
  case (Cons i js)
  obtain s1 where s1: "boxmodel_body_fp S_a T_a Q_g z_b i s = Inr s1"
    using boxmodel_body_fp_Np [OF Cons.prems] by blast
  then have "plume_kind s1 = Np"
    by (rule boxmodel_body_fp_kind)
  then show ?case
    using Cons.IH s1 by simp
qed

lemma upt_N: "[0..<N] = 0 # [1..<N]"
  by (simp add: N_def upt_conv_Cons)

lemma boxmodel_fp_Inl:
  "boxmodel_fp S_a T_a Q_g z_b = Inl e \<longleftrightarrow>
     basalmelting_fp Py (Fin 30) (freeze_fp (Fin 30) z_b) z_b = Inl e"
proof (cases "boxmodel_body_fp S_a T_a Q_g z_b 0 (boxmodel_init_fp z_b)")
  case (Inl e')
  then have "basalmelting_fp Py (Fin 30) (freeze_fp (Fin 30) z_b) z_b = Inl e'"
    by (simp add: boxmodel_body_fp_Inl boxmodel_init_fp_def Let_def)
  with Inl show ?thesis
    by (simp add: boxmodel_fp_def upt_N)
next
  case (Inr s1)
  then have "plume_kind s1 = Np"
    by (rule boxmodel_body_fp_kind)
  then obtain s' where "boxmodel_loop_fp S_a T_a Q_g z_b [1..<N] s1 = Inr s'"
    using boxmodel_loop_fp_Np by blast
  with Inr have "\<exists>r. boxmodel_fp S_a T_a Q_g z_b = Inr r"
    by (simp add: boxmodel_fp_def upt_N)
  moreover have "\<exists>m. basalmelting_fp Py (Fin 30) (freeze_fp (Fin 30) z_b) z_b = Inr m"
  proof (cases "basalmelting_fp Py (Fin 30) (freeze_fp (Fin 30) z_b) z_b")
    case (Inl e')
    then have "boxmodel_body_fp S_a T_a Q_g z_b 0 (boxmodel_init_fp z_b) = Inl e'"
      by (simp add: boxmodel_body_fp_Inl boxmodel_init_fp_def Let_def)
    with Inr show ?thesis by simp
  next
    case (Inr m)
    then show ?thesis by simp
  qed
  ultimately show ?thesis
    by auto
qed

lemma sens_body_fp_Inl:
  "sens_body_fp S_a T_a Q_g z_b i s = Inl e \<longleftrightarrow>
     basalmelting_fp (sv_kind s) (sv_S_fp s) (sv_T_fp s) z_b = Inl e"
  by (simp add: sens_body_fp_def Let_def split: sum.splits)

lemma sens_body_fp_Inr:
  assumes "sens_body_fp S_a T_a Q_g z_b i s = Inr s'"
  shows "sv_kind s' = Np"
    and "\<exists>v_b S_b T_b Q_m Q. sv_v_b_fp s' = Some v_b \<and> sv_S_b_fp s' = Some S_b
      \<and> sv_T_b_fp s' = Some T_b \<and> sv_Q_m_fp s' = Some Q_m \<and> sv_Q_fp s' = Some Q"
  using assms by (auto simp add: sens_body_fp_def Let_def split: sum.splits)

lemma sens_loop_fp_Np:
  assumes "sv_kind s = Np"
    and "\<exists>v_b S_b T_b Q_m Q. sv_v_b_fp s = Some v_b \<and> sv_S_b_fp s = Some S_b
      \<and> sv_T_b_fp s = Some T_b \<and> sv_Q_m_fp s = Some Q_m \<and> sv_Q_fp s = Some Q"
  shows "\<exists>s' v_b S_b T_b Q_m Q. sens_loop_fp S_a T_a Q_g z_b js s = Inr s'
      \<and> sv_v_b_fp s' = Some v_b \<and> sv_S_b_fp s' = Some S_b
      \<and> sv_T_b_fp s' = Some T_b \<and> sv_Q_m_fp s' = Some Q_m \<and> sv_Q_fp s' = Some Q"
  using assms
proof (induction js arbitrary: s)
  case Nil
  then show ?case by simp
next
  case (Cons i js)
  have "\<exists>s1. sens_body_fp S_a T_a Q_g z_b i s = Inr s1"
  proof (cases "sens_body_fp S_a T_a Q_g z_b i s")
    case (Inl e)
    then have "basalmelting_fp Np (sv_S_fp s) (sv_T_fp s) z_b = Inl e"
      by (simp add: sens_body_fp_Inl Cons.prems(1))
    then show ?thesis
      using basalmelting_fp_raises by blast
  next
    case (Inr s1)
    then show ?thesis by simp
  qed
  then obtain s1 where s1: "sens_body_fp S_a T_a Q_g z_b i s = Inr s1"
    by blast
  show ?case
    using Cons.IH [OF sens_body_fp_Inr [OF s1]] s1 by simp
qed

lemma sens_study_fp_Inl:
  "sens_study_fp S_a T_a Q_g z_b = Inl e \<longleftrightarrow>
     basalmelting_fp Py (Fin 30) (freeze_fp (Fin 30) z_b) z_b = Inl e"
proof (cases "sens_body_fp S_a T_a Q_g z_b 0 (sens_init_fp z_b)")
  case (Inl e')
  then have "basalmelting_fp Py (Fin 30) (freeze_fp (Fin 30) z_b) z_b = Inl e'"
    by (simp add: sens_body_fp_Inl sens_init_fp_def Let_def)
  with Inl show ?thesis
    by (simp add: sens_study_fp_def upt_N)
next
  case (Inr s1)
  obtain s' v_b S_b T_b Q_m Q where "sens_loop_fp S_a T_a Q_g z_b [1..<N] s1 = Inr s'"
    "sv_v_b_fp s' = Some v_b" "sv_S_b_fp s' = Some S_b" "sv_T_b_fp s' = Some T_b"
    "sv_Q_m_fp s' = Some Q_m" "sv_Q_fp s' = Some Q"
    using sens_loop_fp_Np [OF sens_body_fp_Inr [OF Inr]] by blast
  with Inr have "\<exists>r. sens_study_fp S_a T_a Q_g z_b = Inr r"
    by (simp add: sens_study_fp_def upt_N)
  moreover have "\<exists>m. basalmelting_fp Py (Fin 30) (freeze_fp (Fin 30) z_b) z_b = Inr m"
  proof (cases "basalmelting_fp Py (Fin 30) (freeze_fp (Fin 30) z_b) z_b")
    case (Inl e')
    then have "sens_body_fp S_a T_a Q_g z_b 0 (sens_init_fp z_b) = Inl e'"
      by (simp add: sens_body_fp_Inl sens_init_fp_def Let_def)
    with Inr show ?thesis by simp
  next
    case (Inr m)
    then show ?thesis by simp
  qed
  ultimately show ?thesis
    by auto
qed

lemma sens_study_fp_raises:
  "sens_study_fp S_a T_a Q_g z_b = Inl e \<Longrightarrow> e = OverflowError"
  using basalmelting_fp_raises by (auto simp add: sens_study_fp_Inl)

lemma getitem_fp_raises:
  "getitem_fp r key = Inl e \<Longrightarrow> e = KeyError \<and> key \<notin> set result_keys"
  by (auto simp add: getitem_fp_def result_keys_def split: if_splits)

lemma grid_sample_returns:
  "X \<noteq> 0 \<Longrightarrow> \<exists>v. grid_sample low high X j = Inr v"
  by (simp add: grid_sample_def py_div_def)

lemma variation_inner_fp_raises:
  assumes "variation_inner_fp S_bot S_top T_bot T_top Q_g z_b Quantity X i ks cm = Inl e"
    and "X \<noteq> 0"
  shows "e = KeyError \<and> Quantity \<notin> set result_keys \<or> e = OverflowError"
  using assms(1)
proof (induction ks arbitrary: cm)
  case Nil
  then show ?case by simp
next
  case (Cons k ks)
  obtain salt where salt: "grid_sample S_bot S_top X i = Inr salt"
    using grid_sample_returns [OF assms(2)] by blast
  obtain temp where temp: "grid_sample T_bot T_top X k = Inr temp"
    using grid_sample_returns [OF assms(2)] by blast
  show ?case
  proof (cases "fge temp (fadd (fadd (fmul (Fin y1) salt) (Fin y2)) (fmul (Fin y3) z_b))")
    case False
    with Cons.prems salt temp show ?thesis
      by (simp add: Cons.IH)
  next
    case True
    show ?thesis
    proof (cases "sens_study_fp salt temp Q_g z_b")
      case (Inl e')
      with Cons.prems salt temp True have "e = e'" by simp
      with Inl show ?thesis
        using sens_study_fp_raises by blast
    next
      case (Inr r)
      show ?thesis
      proof (cases "getitem_fp r Quantity")
        case (Inl e')
        with Cons.prems salt temp True Inr have "e = e'" by simp
        with Inl show ?thesis
          using getitem_fp_raises by blast
      next
        case (Inr v)
        with Cons.prems salt temp True \<open>sens_study_fp salt temp Q_g z_b = Inr r\<close>
        show ?thesis
          by (simp add: Cons.IH)
      qed
    qed
  qed
qed

lemma variation_outer_fp_raises:
  assumes "variation_outer_fp S_bot S_top T_bot T_top Q_g z_b Quantity X js cm = Inl e"
  shows "e = KeyError \<and> Quantity \<notin> set result_keys \<or> e = OverflowError"
  using assms
proof (induction js arbitrary: cm)
  case Nil
  then show ?case by simp
next
  case (Cons i js)
  show ?case
  proof (cases "variation_inner_fp S_bot S_top T_bot T_top Q_g z_b Quantity X i [0..<nat X] cm")
    case (Inl e')
    with Cons.prems have e: "e = e'" by simp
    have "X \<noteq> 0"
    proof
      assume "X = 0"
      with Inl show False by simp
    qed
    with Inl e show ?thesis
      using variation_inner_fp_raises by blast
  next
    case (Inr cm1)
    with Cons.prems show ?thesis
      by (simp add: Cons.IH)
  qed
qed

lemma variation_fp_raises:
  assumes "variation_fp S_bot S_top T_bot T_top Q_g z_b Quantity X = Inl e"
  shows "e = ValueError \<and> X < 0 \<or> e = KeyError \<and> Quantity \<notin> set result_keys
    \<or> e = OverflowError"
proof (cases "X < 0")
  case True
  with assms show ?thesis
    by (simp add: variation_fp_def)
next
  case False
  with assms have "variation_outer_fp S_bot S_top T_bot T_top Q_g z_b Quantity X [0..<nat X]
      (replicate (nat X) (replicate (nat X) (Fin 0))) = Inl e"
    by (simp add: variation_fp_def split: sum.splits)
  then show ?thesis
    using variation_outer_fp_raises by blast
qed

lemma basalmelting_fp_physical:
  assumes "1 / 10 ^ 6 \<le> S" "S \<le> 1000" "- 244000 \<le> z_b" "z_b \<le> 0" "- 100 \<le> T" "T \<le> 100"
  shows "basalmelting_fp k (Fin S) (Fin T) (Fin z_b) =
      Inr \<lparr>fp_S_b = Fin (bm_S_b (basalmelting S T z_b)),
           fp_T_b = Fin (bm_T_b (basalmelting S T z_b)),
           fp_v_b = Fin (bm_v_b (basalmelting S T z_b))\<rparr>"
proof -
  have S: "0 < S"
    using assms(1) by (rule less_le_trans [rotated]) simp
  have o: "(coeff_b S T z_b) ^ 2 < overflow_threshold"
    using S assms(2-6) by (intro physical_no_overflow) simp_all
  note w = basalmelting_well_defined [OF S assms(3), of T]
  have "0 \<le> discriminant S T z_b" "bm_S_b (basalmelting S T z_b) \<noteq> 0"
    using w by simp_all
  with o show ?thesis
    by (simp add: basalmelting_fp_finite)
qed

lemma basalmelting_fp_fresh_physical:
  assumes "- 244000 \<le> z_b" "z_b \<le> 10 ^ 100" "freeze 0 z_b \<le> T" "T \<le> 10 ^ 100"
  shows "basalmelting_fp k (Fin 0) (Fin T) (Fin z_b) =
      Inr \<lparr>fp_S_b = Fin 0, fp_T_b = Fin (freeze 0 z_b), fp_v_b = NaN\<rparr>"
proof -
  have "- 1000 \<le> freeze 0 z_b"
    using assms(1) by (intro freeze_lower) simp_all
  then have "\<bar>T\<bar> \<le> 10 ^ 100" "\<bar>z_b\<bar> \<le> 10 ^ 100"
    using assms by (simp_all add: abs_le_iff)
  then have o: "(coeff_b 0 T z_b) ^ 2 < overflow_threshold"
    by (intro coeff_b_no_overflow) simp_all
  show ?thesis
    using coeff_b_fresh_nonpos [OF assms(1,3)] o by (rule basalmelting_fp_fresh)
qed

text \<open>
  Claim C8, amended. The operations signal no error for a negative radicand, for a
  boundary salinity of zero or for water colder than the freezing temperature:
  \<^item> the only exception of \<open>basalmelting\<close> is \<^verbatim>\<open>OverflowError\<close>, from \<^verbatim>\<open>b ** 2\<close> on
    Python floats; \<open>boxmodel\<close> and \<open>sens_study\<close> raise exactly when the call of
    \<open>basalmelting\<close> in their first iteration does; \<open>variation\<close> raises only
    \<^verbatim>\<open>ValueError\<close>, for a negative \<open>X\<close>, \<^verbatim>\<open>KeyError\<close>, for a \<open>Quantity\<close> that is no key
    of the result, and \<^verbatim>\<open>OverflowError\<close>;
  \<^item> for finite inputs of magnitude at most \<open>10 ^ 100\<close>, a negative discriminant makes
    \<open>S_b\<close>, \<open>T_b\<close> and \<open>v_b\<close> not-a-number;
  \<^item> a salinity of zero at or above the freezing temperature makes the boundary
    salinity zero and the melt velocity not-a-number;
  \<^item> for a salinity between \<open>10\<^sup>-\<^sup>6\<close> and 1000, a depth between -244000 and 0 and a
    temperature between -100 and 100, below the freezing temperature or not, the
    three values are finite.
\<close>

theorem errors_and_special_values:
  "(basalmelting_fp k Sv Tv zv = Inl e \<longrightarrow> e = OverflowError \<and> k = Py)
   \<and> (boxmodel_fp S_a T_a Q_g zv = Inl e \<longleftrightarrow>
        basalmelting_fp Py (Fin 30) (freeze_fp (Fin 30) zv) zv = Inl e)
   \<and> (sens_study_fp S_a T_a Q_g zv = Inl e \<longleftrightarrow>
        basalmelting_fp Py (Fin 30) (freeze_fp (Fin 30) zv) zv = Inl e)
   \<and> (variation_fp S_bot S_top T_bot T_top Q_g zv Quantity X = Inl e \<longrightarrow>
        e = ValueError \<and> X < 0 \<or> e = KeyError \<and> Quantity \<notin> set result_keys
        \<or> e = OverflowError)
   \<and> (\<bar>S\<bar> \<le> 10 ^ 100 \<and> \<bar>T\<bar> \<le> 10 ^ 100 \<and> \<bar>z_b\<bar> \<le> 10 ^ 100 \<and> discriminant S T z_b < 0 \<longrightarrow>
        basalmelting_fp k (Fin S) (Fin T) (Fin z_b) =
          Inr \<lparr>fp_S_b = NaN, fp_T_b = NaN, fp_v_b = NaN\<rparr>)
   \<and> (- 244000 \<le> z_b \<and> z_b \<le> 10 ^ 100 \<and> freeze 0 z_b \<le> T \<and> T \<le> 10 ^ 100 \<longrightarrow>
        basalmelting_fp k (Fin 0) (Fin T) (Fin z_b) =
          Inr \<lparr>fp_S_b = Fin 0, fp_T_b = Fin (freeze 0 z_b), fp_v_b = NaN\<rparr>)
   \<and> (1 / 10 ^ 6 \<le> S \<and> S \<le> 1000 \<and> - 244000 \<le> z_b \<and> z_b \<le> 0 \<and> - 100 \<le> T \<and> T \<le> 100 \<longrightarrow>
        basalmelting_fp k (Fin S) (Fin T) (Fin z_b) =
          Inr \<lparr>fp_S_b = Fin (bm_S_b (basalmelting S T z_b)),
               fp_T_b = Fin (bm_T_b (basalmelting S T z_b)),
               fp_v_b = Fin (bm_v_b (basalmelting S T z_b))\<rparr>)"
proof (intro conjI impI)
  assume "basalmelting_fp k Sv Tv zv = Inl e"
  then show "e = OverflowError" "k = Py"
    using basalmelting_fp_raises by blast+
next
  show "boxmodel_fp S_a T_a Q_g zv = Inl e \<longleftrightarrow>
      basalmelting_fp Py (Fin 30) (freeze_fp (Fin 30) zv) zv = Inl e"
    by (rule boxmodel_fp_Inl)
next
  show "sens_study_fp S_a T_a Q_g zv = Inl e \<longleftrightarrow>
      basalmelting_fp Py (Fin 30) (freeze_fp (Fin 30) zv) zv = Inl e"
    by (rule sens_study_fp_Inl)
next
  assume "variation_fp S_bot S_top T_bot T_top Q_g zv Quantity X = Inl e"
  then show "e = ValueError \<and> X < 0 \<or> e = KeyError \<and> Quantity \<notin> set result_keys
      \<or> e = OverflowError"
    by (rule variation_fp_raises)
next
  assume "\<bar>S\<bar> \<le> 10 ^ 100 \<and> \<bar>T\<bar> \<le> 10 ^ 100 \<and> \<bar>z_b\<bar> \<le> 10 ^ 100 \<and> discriminant S T z_b < 0"
  then show "basalmelting_fp k (Fin S) (Fin T) (Fin z_b) =
      Inr \<lparr>fp_S_b = NaN, fp_T_b = NaN, fp_v_b = NaN\<rparr>"
    by (intro basalmelting_fp_nan coeff_b_no_overflow) simp_all
next
  assume "- 244000 \<le> z_b \<and> z_b \<le> 10 ^ 100 \<and> freeze 0 z_b \<le> T \<and> T \<le> 10 ^ 100"
  then show "basalmelting_fp k (Fin 0) (Fin T) (Fin z_b) =
      Inr \<lparr>fp_S_b = Fin 0, fp_T_b = Fin (freeze 0 z_b), fp_v_b = NaN\<rparr>"
    by (intro basalmelting_fp_fresh_physical) simp_all
next
  assume "1 / 10 ^ 6 \<le> S \<and> S \<le> 1000 \<and> - 244000 \<le> z_b \<and> z_b \<le> 0 \<and> - 100 \<le> T \<and> T \<le> 100"
  then show "basalmelting_fp k (Fin S) (Fin T) (Fin z_b) =
      Inr \<lparr>fp_S_b = Fin (bm_S_b (basalmelting S T z_b)),
           fp_T_b = Fin (bm_T_b (basalmelting S T z_b)),
           fp_v_b = Fin (bm_v_b (basalmelting S T z_b))\<rparr>"
    by (intro basalmelting_fp_physical) simp_all
qed

text \<open>
  The claim as it stands fails in three ways: \<open>basalmelting\<close> at \<open>T = 10 ^ 200\<close> and
  \<open>boxmodel\<close> at \<open>z_b = 10 ^ 200\<close> raise \<^verbatim>\<open>OverflowError\<close>; \<open>variation\<close> with \<open>X = -1\<close>
  raises \<^verbatim>\<open>ValueError\<close>; and water colder than the freezing temperature, \<open>T = -5\<close> at
  \<open>S = 30\<close> and \<open>z_b = -300\<close>, gives three finite values and no not-a-number.
\<close>

theorem evaluation_raises_counterexample:
  "basalmelting_fp Py (Fin 30) (Fin (10 ^ 200)) (Fin (- 300)) = Inl OverflowError
   \<and> boxmodel_fp (Fin 33) (Fin (- 1)) (Fin 70) (Fin (10 ^ 200)) = Inl OverflowError
   \<and> variation_fp (Fin 30) (Fin 35) (Fin (- 2)) (Fin 2) (Fin 70) (Fin (- 300)) ''v_b'' (- 1) =
       Inl ValueError
   \<and> - 5 < freeze 30 (- 300)
   \<and> basalmelting_fp Py (Fin 30) (Fin (- 5)) (Fin (- 300)) =
       Inr \<lparr>fp_S_b = Fin (bm_S_b (basalmelting 30 (- 5) (- 300))),
            fp_T_b = Fin (bm_T_b (basalmelting 30 (- 5) (- 300))),
            fp_v_b = Fin (bm_v_b (basalmelting 30 (- 5) (- 300)))\<rparr>"
proof -
  have "10 ^ 160 \<le> \<bar>coeff_b 30 (freeze 30 (10 ^ 200)) (10 ^ 200)\<bar>"
    by (simp add: coeff_b_def freeze_def y1_def y2_def y3_def gamma_T_def gamma_S_def
        St_T_def St_S_def u_def c_i_def c_p_def T_i_def L_def)
  then have o2: "overflow_threshold \<le> (coeff_b 30 (freeze 30 (10 ^ 200)) (10 ^ 200)) ^ 2"
    by (rule large_square_overflows)
  have "basalmelting_fp Py (Fin 30) (freeze_fp (Fin 30) (Fin (10 ^ 200))) (Fin (10 ^ 200)) =
      Inl OverflowError"
    unfolding freeze_fp_Fin using o2 by (rule basalmelting_fp_overflow)
  then have b: "boxmodel_fp (Fin 33) (Fin (- 1)) (Fin 70) (Fin (10 ^ 200)) = Inl OverflowError"
    by (simp add: boxmodel_fp_Inl)
  have f: "- 5 < freeze 30 (- 300)"
    by (simp add: freeze_def y1_def y2_def y3_def)
  have c: "basalmelting_fp Py (Fin 30) (Fin (- 5)) (Fin (- 300)) =
       Inr \<lparr>fp_S_b = Fin (bm_S_b (basalmelting 30 (- 5) (- 300))),
            fp_T_b = Fin (bm_T_b (basalmelting 30 (- 5) (- 300))),
            fp_v_b = Fin (bm_v_b (basalmelting 30 (- 5) (- 300)))\<rparr>"
    by (rule basalmelting_fp_physical) simp_all
  show ?thesis
    using basalmelting_fp_overflow_hot b f c by (simp add: variation_fp_def)
qed

theorem errors_and_special_values_witness:
  "\<bar>- 30 :: real\<bar> \<le> 10 ^ 100 \<and> \<bar>- 3 / 2 :: real\<bar> \<le> 10 ^ 100 \<and> \<bar>- 300 :: real\<bar> \<le> 10 ^ 100
   \<and> discriminant (- 30) (- 3 / 2) (- 300) < 0
   \<and> basalmelting_fp Np (Fin (- 30)) (Fin (- 3 / 2)) (Fin (- 300)) =
       Inr \<lparr>fp_S_b = NaN, fp_T_b = NaN, fp_v_b = NaN\<rparr>
   \<and> (- 244000 :: real) \<le> - 300 \<and> (- 300 :: real) \<le> 10 ^ 100 \<and> freeze 0 (- 300) \<le> 5
   \<and> (5 :: real) \<le> 10 ^ 100
   \<and> basalmelting_fp Np (Fin 0) (Fin 5) (Fin (- 300)) =
       Inr \<lparr>fp_S_b = Fin 0, fp_T_b = Fin (freeze 0 (- 300)), fp_v_b = NaN\<rparr>"
proof -
  have d: "discriminant (- 30) (- 3 / 2) (- 300) < 0"
    by (simp add: discriminant_def coeff_a_def coeff_b_def coeff_c_def y1_def y2_def y3_def
        gamma_T_def gamma_S_def St_T_def St_S_def u_def c_i_def c_p_def T_i_def L_def
        power2_eq_square)
  have f: "freeze 0 (- 300) \<le> 5"
    by (simp add: freeze_def y2_def y3_def)
  note inst = errors_and_special_values [where k = Np and z_b = "- 300" and Sv = NaN and Tv = NaN
      and zv = NaN and e = KeyError and S_a = NaN and T_a = NaN and Q_g = NaN and S_bot = NaN
      and S_top = NaN and T_bot = NaN and T_top = NaN and Quantity = "''v_b''" and X = 0]
  have n: "basalmelting_fp Np (Fin (- 30)) (Fin (- 3 / 2)) (Fin (- 300)) =
       Inr \<lparr>fp_S_b = NaN, fp_T_b = NaN, fp_v_b = NaN\<rparr>"
    using d
    by (intro inst [where S = "- 30" and T = "- 3 / 2", THEN conjunct2, THEN conjunct2,
          THEN conjunct2, THEN conjunct2, THEN conjunct1, THEN mp]) simp
  have z: "basalmelting_fp Np (Fin 0) (Fin 5) (Fin (- 300)) =
       Inr \<lparr>fp_S_b = Fin 0, fp_T_b = Fin (freeze 0 (- 300)), fp_v_b = NaN\<rparr>"
    using f
    by (intro inst [where S = 0 and T = 5, THEN conjunct2, THEN conjunct2, THEN conjunct2,
          THEN conjunct2, THEN conjunct2, THEN conjunct1, THEN mp]) simp
  from d f n z show ?thesis
    by simp
qed

end
